theory Spec2Isabelle
  imports Complex_Main "HOL-Library.Log_Nat"
begin

section \<open>The persisted schema\<close>

text \<open>
  The tables of the drizzle schema, one record per table. Integer columns are \<open>int\<close>,
  \<open>varchar\<close> and \<open>text\<close> columns are \<open>string\<close>, timestamps are milliseconds since the
  epoch (\<open>int\<close>), and a column that is not declared \<open>notNull\<close> is an \<open>option\<close>
  (\<open>None\<close> is SQL \<open>NULL\<close>). An order carries its \<open>createdAt\<close> and its \<open>updatedAt\<close>, which
  the store sets at an insert and at an update; the bookkeeping timestamps of the other
  tables are left out.
\<close>

datatype role = RoleUser | RoleAdmin

record user =
  user_id :: int
  user_openId :: string
  user_name :: "string option"
  user_email :: "string option"
  user_loginMethod :: "string option"
  user_role :: role
  user_lastSignedIn :: int

record category =
  cat_id :: int
  cat_name :: string
  cat_description :: "string option"
  cat_imageUrl :: "string option"
  cat_slug :: string
  cat_isActive :: bool

record product =
  prod_id :: int
  prod_categoryId :: int
  prod_name :: string
  prod_description :: "string option"
  prod_price :: int
  prod_originalPrice :: "int option"
  prod_discountPercentage :: "int option"
  prod_imageUrl :: "string option"
  prod_images :: "string option"
  prod_sku :: "string option"
  prod_stock :: int
  prod_rating :: "int option"
  prod_reviewCount :: "int option"
  prod_isActive :: bool
  prod_isFeatured :: "bool option"

record review =
  rev_id :: int
  rev_productId :: int
  rev_userId :: int
  rev_rating :: int
  rev_title :: "string option"
  rev_comment :: "string option"
  rev_isVerified :: "bool option"

datatype address_type = Home | Work | Other

record address =
  addr_id :: int
  addr_userId :: int
  addr_type :: "address_type option"
  addr_fullName :: string
  addr_phoneNumber :: string
  addr_addressLine1 :: string
  addr_addressLine2 :: "string option"
  addr_city :: string
  addr_state :: string
  addr_postalCode :: string
  addr_country :: "string option"
  addr_isDefault :: "bool option"

record cartItem =
  cart_id :: int
  cart_userId :: int
  cart_productId :: int
  cart_quantity :: int

record wishlistItem =
  wish_id :: int
  wish_userId :: int
  wish_productId :: int

datatype order_status = Pending | Confirmed | Processing | Shipped | Delivered | Cancelled

datatype payment_method = CreditCard | DebitCard | Upi | Wallet | Cod

datatype payment_status = PayPending | PayCompleted | PayFailed

record order =
  order_id :: int
  order_userId :: int
  order_orderNumber :: string
  order_addressId :: int
  order_subtotal :: int
  order_discountAmount :: "int option"
  order_deliveryCharge :: "int option"
  order_totalAmount :: int
  order_status :: "order_status option"
  order_paymentMethod :: "payment_method option"
  order_paymentStatus :: "payment_status option"
  order_paymentId :: "string option"
  order_couponCode :: "string option"
  order_estimatedDeliveryDate :: "int option"
  order_deliveryOtp :: "string option"
  order_deliveryOtpExpiry :: "int option"
  order_deliveryOtpVerified :: "bool option"
  order_notes :: "string option"
  order_createdAt :: int
  order_updatedAt :: int

record orderItem =
  oi_id :: int
  oi_orderId :: int
  oi_productId :: int
  oi_productName :: string
  oi_productImage :: "string option"
  oi_quantity :: int
  oi_price :: int

datatype discount_type = Percentage | Fixed

record coupon =
  coupon_id :: int
  coupon_code :: string
  coupon_description :: "string option"
  coupon_discountType :: discount_type
  coupon_discountValue :: int
  coupon_minOrderAmount :: "int option"
  coupon_maxDiscount :: "int option"
  coupon_usageLimit :: "int option"
  coupon_usageCount :: "int option"
  coupon_expiryDate :: "int option"
  coupon_isActive :: "bool option"

record banner =
  ban_id :: int
  ban_title :: string
  ban_description :: "string option"
  ban_imageUrl :: string
  ban_link :: "string option"
  ban_position :: "int option"
  ban_isActive :: "bool option"
  ban_startDate :: "int option"
  ban_endDate :: "int option"

text \<open>
  A table is the list of its rows, in storage order, with the next value of its
  \<open>AUTO_INCREMENT\<close> key. The database is the record of the eleven tables that the access
  layer imports from the schema.
\<close>

record 'r table =
  rows :: "'r list"
  nextId :: int

record database =
  users :: "user table"
  categories :: "category table"
  products :: "product table"
  cartItems :: "cartItem table"
  wishlistItems :: "wishlistItem table"
  addresses :: "address table"
  orders :: "order table"
  orderItems :: "orderItem table"
  reviews :: "review table"
  coupons :: "coupon table"
  banners :: "banner table"

section \<open>The access layer\<close>

text \<open>
  The value of \<open>await getDb()\<close> is a \<open>database option\<close>: \<open>None\<close> is the \<open>null\<close> handle
  of a store that is not available, \<open>Some db\<close> a handle on the contents \<open>db\<close>. A function
  that only reads returns its result. A function that writes returns \<open>Inl\<close> of the error
  it throws, or \<open>Inr\<close> of its return value and the handle on the updated contents.
  Identifiers and quantities are integers, the values the integer columns hold. The
  numbers that the router validates with \<open>z.number()\<close> alone and sends on as the figures
  of an order or as the limit and the offset of a product query are any finite number, a
  \<open>rat\<close>. The current time \<open>new Date()\<close> is a parameter \<open>now\<close>.
\<close>

datatype error =
  DatabaseNotAvailable | OpenIdRequired | DuplicateEntry | QueryFailed | Unauthorized | BadRequest

type_synonym 'a written = "error + ('a \<times> database option)"

definition first_row :: "'r list \<Rightarrow> 'r option" where
  "first_row result = (case take 1 result of [] \<Rightarrow> None | r # _ \<Rightarrow> Some r)"

text \<open>
  A select built with \<open>.limit(n)\<close> and \<open>.offset(m)\<close> reaches the store with the clauses
  \<open>limit n\<close> and \<open>offset m\<close>. The store takes as a row count a whole number from 0 below
  \<open>2\<^sup>6\<^sup>4\<close> and refuses the query for any other number; it also refuses an offset clause
  that comes with no limit clause. \<open>select_page\<close> is the store's answer to a query with
  the given clauses, on the rows that the \<open>where\<close> selects.
\<close>

definition row_count :: "rat \<Rightarrow> nat option" where
  "row_count x =
     (if of_int \<lfloor>x\<rfloor> = x \<and> 0 \<le> x \<and> x < 2 ^ 64 then Some (nat \<lfloor>x\<rfloor>) else None)"

definition select_page :: "rat option \<Rightarrow> rat option \<Rightarrow> 'r list \<Rightarrow> error + 'r list" where
  "select_page limit_clause offset_clause selected =
     (case offset_clause of
        None \<Rightarrow>
          (case limit_clause of
             None \<Rightarrow> Inr selected
           | Some l \<Rightarrow>
               (case row_count l of
                  None \<Rightarrow> Inl QueryFailed
                | Some n \<Rightarrow> Inr (take n selected)))
      | Some off \<Rightarrow>
          (case limit_clause of
             None \<Rightarrow> Inl QueryFailed
           | Some l \<Rightarrow>
               (case row_count l of
                  None \<Rightarrow> Inl QueryFailed
                | Some n \<Rightarrow>
                    (case row_count off of
                       None \<Rightarrow> Inl QueryFailed
                     | Some m \<Rightarrow> Inr (take n (drop m selected))))))"

text \<open>
  \<open>if (limit) query = query.limit(limit); if (offset) query = query.offset(offset)\<close>:
  a limit or an offset that is absent or 0 adds no clause, any other number adds its
  clause, and the query is then awaited.
\<close>

definition paginate :: "rat option \<Rightarrow> rat option \<Rightarrow> 'r list \<Rightarrow> error + 'r list" where
  "paginate limit offset query =
     select_page
       (case limit of None \<Rightarrow> None | Some l \<Rightarrow> if l \<noteq> 0 then Some l else None)
       (case offset of None \<Rightarrow> None | Some off \<Rightarrow> if off \<noteq> 0 then Some off else None)
       query"

definition insert_row :: "(int \<Rightarrow> 'r) \<Rightarrow> 'r table \<Rightarrow> int \<times> 'r table" where
  "insert_row mk t =
     (nextId t, t\<lparr>rows := rows t @ [mk (nextId t)], nextId := nextId t + 1\<rparr>)"

definition update_rows :: "('r \<Rightarrow> bool) \<Rightarrow> ('r \<Rightarrow> 'r) \<Rightarrow> 'r table \<Rightarrow> 'r table" where
  "update_rows p f t = t\<lparr>rows := map (\<lambda>r. if p r then f r else r) (rows t)\<rparr>"

definition delete_rows :: "('r \<Rightarrow> bool) \<Rightarrow> 'r table \<Rightarrow> 'r table" where
  "delete_rows p t = t\<lparr>rows := filter (\<lambda>r. \<not> p r) (rows t)\<rparr>"

subsection \<open>Users\<close>

text \<open>
  \<open>InsertUser\<close>: \<open>openId\<close> is required; a text field is absent (\<open>None\<close>), \<open>null\<close>
  (\<open>Some None\<close>) or a string. \<open>update_set\<close> is the \<open>updateSet\<close> object of \<open>upsertUser\<close>.
\<close>

record insertUser =
  iu_openId :: string
  iu_name :: "string option option"
  iu_email :: "string option option"
  iu_loginMethod :: "string option option"
  iu_role :: "role option"
  iu_lastSignedIn :: "int option"

record update_set =
  us_name :: "string option option"
  us_email :: "string option option"
  us_loginMethod :: "string option option"
  us_role :: "role option"
  us_lastSignedIn :: "int option"

definition apply_update_set :: "update_set \<Rightarrow> user \<Rightarrow> user" where
  "apply_update_set s u =
     u\<lparr>user_name := (case us_name s of None \<Rightarrow> user_name u | Some v \<Rightarrow> v),
       user_email := (case us_email s of None \<Rightarrow> user_email u | Some v \<Rightarrow> v),
       user_loginMethod := (case us_loginMethod s of None \<Rightarrow> user_loginMethod u | Some v \<Rightarrow> v),
       user_role := (case us_role s of None \<Rightarrow> user_role u | Some v \<Rightarrow> v),
       user_lastSignedIn := (case us_lastSignedIn s of None \<Rightarrow> user_lastSignedIn u | Some v \<Rightarrow> v)\<rparr>"

definition upsertUser :: "database option \<Rightarrow> string \<Rightarrow> int \<Rightarrow> insertUser \<Rightarrow> unit written" where
  "upsertUser handle ownerOpenId now u =
     (if iu_openId u = [] then Inl OpenIdRequired
      else case handle of
        None \<Rightarrow> Inr ((), None)
      | Some db \<Rightarrow>
          (let role_set = (case iu_role u of
                             Some r \<Rightarrow> Some r
                           | None \<Rightarrow> if iu_openId u = ownerOpenId then Some RoleAdmin else None);
               updateSet = \<lparr>us_name = iu_name u, us_email = iu_email u,
                            us_loginMethod = iu_loginMethod u, us_role = role_set,
                            us_lastSignedIn = iu_lastSignedIn u\<rparr>;
               values_lastSignedIn = (case iu_lastSignedIn u of Some d \<Rightarrow> d | None \<Rightarrow> now);
               updateSet' = (if us_name updateSet = None \<and> us_email updateSet = None \<and>
                                us_loginMethod updateSet = None \<and> us_role updateSet = None \<and>
                                us_lastSignedIn updateSet = None
                             then updateSet\<lparr>us_lastSignedIn := Some now\<rparr> else updateSet);
               t = users db
           in if \<exists>r \<in> set (rows t). user_openId r = iu_openId u
              then Inr ((), Some (db\<lparr>users :=
                     update_rows (\<lambda>r. user_openId r = iu_openId u) (apply_update_set updateSet') t\<rparr>))
              else Inr ((), Some (db\<lparr>users := snd (insert_row (\<lambda>i.
                     \<lparr>user_id = i, user_openId = iu_openId u,
                      user_name = (case iu_name u of None \<Rightarrow> None | Some v \<Rightarrow> v),
                      user_email = (case iu_email u of None \<Rightarrow> None | Some v \<Rightarrow> v),
                      user_loginMethod = (case iu_loginMethod u of None \<Rightarrow> None | Some v \<Rightarrow> v),
                      user_role = (case role_set of None \<Rightarrow> RoleUser | Some r \<Rightarrow> r),
                      user_lastSignedIn = values_lastSignedIn\<rparr>) t)\<rparr>))))"

definition getUserByOpenId :: "database option \<Rightarrow> string \<Rightarrow> user option" where
  "getUserByOpenId handle openId =
     (case handle of
        None \<Rightarrow> None
      | Some db \<Rightarrow> first_row (filter (\<lambda>r. user_openId r = openId) (rows (users db))))"

subsection \<open>Categories and products\<close>

definition getCategories :: "database option \<Rightarrow> category list" where
  "getCategories handle =
     (case handle of
        None \<Rightarrow> []
      | Some db \<Rightarrow> filter (\<lambda>r. cat_isActive r = True) (rows (categories db)))"

definition getCategoryBySlug :: "database option \<Rightarrow> string \<Rightarrow> category option" where
  "getCategoryBySlug handle slug =
     (case handle of
        None \<Rightarrow> None
      | Some db \<Rightarrow> first_row (filter (\<lambda>r. cat_slug r = slug) (rows (categories db))))"

definition getProducts ::
  "database option \<Rightarrow> rat option \<Rightarrow> rat option \<Rightarrow> error + product list" where
  "getProducts handle limit offset =
     (case handle of
        None \<Rightarrow> Inr []
      | Some db \<Rightarrow>
          paginate limit offset (filter (\<lambda>r. prod_isActive r = True) (rows (products db))))"

definition getProductsByCategory ::
  "database option \<Rightarrow> int \<Rightarrow> rat option \<Rightarrow> rat option \<Rightarrow> error + product list" where
  "getProductsByCategory handle categoryId limit offset =
     (case handle of
        None \<Rightarrow> Inr []
      | Some db \<Rightarrow>
          paginate limit offset
            (filter (\<lambda>r. prod_categoryId r = categoryId) (rows (products db))))"

definition getProductById :: "database option \<Rightarrow> int \<Rightarrow> product option" where
  "getProductById handle ident =
     (case handle of
        None \<Rightarrow> None
      | Some db \<Rightarrow> first_row (filter (\<lambda>r. prod_id r = ident) (rows (products db))))"

text \<open>
  The limit of \<open>getFeaturedProducts\<close> defaults to 10 when it is not passed, and its
  \<open>.limit(limit)\<close> is always there.
\<close>

definition getFeaturedProducts :: "database option \<Rightarrow> rat option \<Rightarrow> error + product list" where
  "getFeaturedProducts handle limit =
     (case handle of
        None \<Rightarrow> Inr []
      | Some db \<Rightarrow>
          select_page (Some (case limit of None \<Rightarrow> 10 | Some l \<Rightarrow> l)) None
            (filter (\<lambda>r. prod_isFeatured r = Some True) (rows (products db))))"

subsection \<open>Cart and wishlist\<close>

definition getCartItems :: "database option \<Rightarrow> int \<Rightarrow> cartItem list" where
  "getCartItems handle userId =
     (case handle of
        None \<Rightarrow> []
      | Some db \<Rightarrow> filter (\<lambda>r. cart_userId r = userId) (rows (cartItems db)))"

text \<open>The quantity parameter of \<open>addToCart\<close> defaults to 1 when it is not passed.\<close>

definition addToCart :: "database option \<Rightarrow> int \<Rightarrow> int \<Rightarrow> int option \<Rightarrow> int written" where
  "addToCart handle userId productId quantity =
     (case handle of
        None \<Rightarrow> Inl DatabaseNotAvailable
      | Some db \<Rightarrow>
          (let (insertId, t) = insert_row (\<lambda>i.
                 \<lparr>cart_id = i, cart_userId = userId, cart_productId = productId,
                  cart_quantity = (case quantity of None \<Rightarrow> 1 | Some q \<Rightarrow> q)\<rparr>) (cartItems db)
           in Inr (insertId, Some (db\<lparr>cartItems := t\<rparr>))))"

definition updateCartItem :: "database option \<Rightarrow> int \<Rightarrow> int \<Rightarrow> unit written" where
  "updateCartItem handle ident quantity =
     (case handle of
        None \<Rightarrow> Inl DatabaseNotAvailable
      | Some db \<Rightarrow>
          Inr ((), Some (db\<lparr>cartItems :=
            update_rows (\<lambda>r. cart_id r = ident) (\<lambda>r. r\<lparr>cart_quantity := quantity\<rparr>)
              (cartItems db)\<rparr>)))"

definition removeFromCart :: "database option \<Rightarrow> int \<Rightarrow> unit written" where
  "removeFromCart handle ident =
     (case handle of
        None \<Rightarrow> Inl DatabaseNotAvailable
      | Some db \<Rightarrow>
          Inr ((), Some (db\<lparr>cartItems := delete_rows (\<lambda>r. cart_id r = ident) (cartItems db)\<rparr>)))"

definition clearCart :: "database option \<Rightarrow> int \<Rightarrow> unit written" where
  "clearCart handle userId =
     (case handle of
        None \<Rightarrow> Inl DatabaseNotAvailable
      | Some db \<Rightarrow>
          Inr ((), Some (db\<lparr>cartItems :=
            delete_rows (\<lambda>r. cart_userId r = userId) (cartItems db)\<rparr>)))"

definition getWishlistItems :: "database option \<Rightarrow> int \<Rightarrow> wishlistItem list" where
  "getWishlistItems handle userId =
     (case handle of
        None \<Rightarrow> []
      | Some db \<Rightarrow> filter (\<lambda>r. wish_userId r = userId) (rows (wishlistItems db)))"

definition addToWishlist :: "database option \<Rightarrow> int \<Rightarrow> int \<Rightarrow> int written" where
  "addToWishlist handle userId productId =
     (case handle of
        None \<Rightarrow> Inl DatabaseNotAvailable
      | Some db \<Rightarrow>
          (let (insertId, t) = insert_row (\<lambda>i.
                 \<lparr>wish_id = i, wish_userId = userId, wish_productId = productId\<rparr>)
                 (wishlistItems db)
           in Inr (insertId, Some (db\<lparr>wishlistItems := t\<rparr>))))"

text \<open>
  \<open>removeFromWishlist\<close> takes the product's identifier and deletes
  \<open>where(eq(wishlistItems.userId, userId))\<close>: the parameter \<open>productId\<close> is not used.
\<close>

definition removeFromWishlist :: "database option \<Rightarrow> int \<Rightarrow> int \<Rightarrow> unit written" where
  "removeFromWishlist handle userId productId =
     (case handle of
        None \<Rightarrow> Inl DatabaseNotAvailable
      | Some db \<Rightarrow>
          Inr ((), Some (db\<lparr>wishlistItems :=
            delete_rows (\<lambda>r. wish_userId r = userId) (wishlistItems db)\<rparr>)))"

subsection \<open>Addresses\<close>

text \<open>
  \<open>addAddress\<close> and \<open>updateAddress\<close> take \<open>data: any\<close>; the records below are the objects
  the router builds. An absent column of an insert takes the default of the schema.
\<close>

record newAddress =
  na_userId :: int
  na_type :: "address_type option"
  na_fullName :: string
  na_phoneNumber :: string
  na_addressLine1 :: string
  na_addressLine2 :: "string option"
  na_city :: string
  na_state :: string
  na_postalCode :: string
  na_isDefault :: "bool option"

record addressPatch =
  ap_type :: "address_type option"
  ap_fullName :: "string option"
  ap_phoneNumber :: "string option"
  ap_addressLine1 :: "string option"
  ap_addressLine2 :: "string option"
  ap_city :: "string option"
  ap_state :: "string option"
  ap_postalCode :: "string option"
  ap_isDefault :: "bool option"

definition apply_addressPatch :: "addressPatch \<Rightarrow> address \<Rightarrow> address" where
  "apply_addressPatch d a =
     a\<lparr>addr_type := (case ap_type d of None \<Rightarrow> addr_type a | Some v \<Rightarrow> Some v),
       addr_fullName := (case ap_fullName d of None \<Rightarrow> addr_fullName a | Some v \<Rightarrow> v),
       addr_phoneNumber := (case ap_phoneNumber d of None \<Rightarrow> addr_phoneNumber a | Some v \<Rightarrow> v),
       addr_addressLine1 := (case ap_addressLine1 d of None \<Rightarrow> addr_addressLine1 a | Some v \<Rightarrow> v),
       addr_addressLine2 := (case ap_addressLine2 d of None \<Rightarrow> addr_addressLine2 a | Some v \<Rightarrow> Some v),
       addr_city := (case ap_city d of None \<Rightarrow> addr_city a | Some v \<Rightarrow> v),
       addr_state := (case ap_state d of None \<Rightarrow> addr_state a | Some v \<Rightarrow> v),
       addr_postalCode := (case ap_postalCode d of None \<Rightarrow> addr_postalCode a | Some v \<Rightarrow> v),
       addr_isDefault := (case ap_isDefault d of None \<Rightarrow> addr_isDefault a | Some v \<Rightarrow> Some v)\<rparr>"

definition getUserAddresses :: "database option \<Rightarrow> int \<Rightarrow> address list" where
  "getUserAddresses handle userId =
     (case handle of
        None \<Rightarrow> []
      | Some db \<Rightarrow> filter (\<lambda>r. addr_userId r = userId) (rows (addresses db)))"

definition addAddress :: "database option \<Rightarrow> newAddress \<Rightarrow> int written" where
  "addAddress handle d =
     (case handle of
        None \<Rightarrow> Inl DatabaseNotAvailable
      | Some db \<Rightarrow>
          (let (insertId, t) = insert_row (\<lambda>i.
                 \<lparr>addr_id = i, addr_userId = na_userId d,
                  addr_type = (case na_type d of None \<Rightarrow> Some Home | Some v \<Rightarrow> Some v),
                  addr_fullName = na_fullName d, addr_phoneNumber = na_phoneNumber d,
                  addr_addressLine1 = na_addressLine1 d, addr_addressLine2 = na_addressLine2 d,
                  addr_city = na_city d, addr_state = na_state d,
                  addr_postalCode = na_postalCode d, addr_country = Some ''India'',
                  addr_isDefault = (case na_isDefault d of None \<Rightarrow> Some False | Some v \<Rightarrow> Some v)\<rparr>)
                 (addresses db)
           in Inr (insertId, Some (db\<lparr>addresses := t\<rparr>))))"

definition updateAddress :: "database option \<Rightarrow> int \<Rightarrow> addressPatch \<Rightarrow> unit written" where
  "updateAddress handle ident d =
     (case handle of
        None \<Rightarrow> Inl DatabaseNotAvailable
      | Some db \<Rightarrow>
          Inr ((), Some (db\<lparr>addresses :=
            update_rows (\<lambda>r. addr_id r = ident) (apply_addressPatch d) (addresses db)\<rparr>)))"

definition deleteAddress :: "database option \<Rightarrow> int \<Rightarrow> unit written" where
  "deleteAddress handle ident =
     (case handle of
        None \<Rightarrow> Inl DatabaseNotAvailable
      | Some db \<Rightarrow>
          Inr ((), Some (db\<lparr>addresses := delete_rows (\<lambda>r. addr_id r = ident) (addresses db)\<rparr>)))"

subsection \<open>Orders, order items and reviews\<close>

text \<open>
  \<open>createOrder\<close>, \<open>createOrderItem\<close> and \<open>createReview\<close> take \<open>data: any\<close> and insert
  it as it is; the records below are the objects the router builds. \<open>orderNumber\<close> is a
  unique column: an insert that repeats one is refused by the store.

  The figures and the texts of an order reach the store as the caller sent them, and the
  store converts each to its column: \<open>int_column x\<close> is the integer it stores for the
  number \<open>x\<close>, \<open>text_column n s\<close> the text it stores for the string \<open>s\<close> in a column that
  holds \<open>n\<close> characters (50 for \<open>orderNumber\<close> and \<open>couponCode\<close>, 65535 for \<open>notes\<close>), and
  \<open>None\<close> when it refuses the insert. What a store does with a number that is not an
  integer of the column's range, or with a string that is too long (it may round, clip,
  cut or refuse), depends on the store and its mode, so the two conversions are
  parameters of \<open>createOrder\<close>. \<open>db_time\<close> is the store's current timestamp: it is the
  \<open>createdAt\<close> and the \<open>updatedAt\<close> of an inserted order, and the \<open>updatedAt\<close> of an order
  that an update changes.
\<close>

record newOrder =
  no_userId :: int
  no_orderNumber :: string
  no_addressId :: rat
  no_subtotal :: rat
  no_discountAmount :: "rat option"
  no_deliveryCharge :: "rat option"
  no_totalAmount :: rat
  no_status :: "order_status option"
  no_paymentMethod :: "payment_method option"
  no_paymentStatus :: "payment_status option"
  no_couponCode :: "string option"
  no_notes :: "string option"

definition nullable_text :: "(string \<Rightarrow> string option) \<Rightarrow> string option \<Rightarrow> string option option" where
  "nullable_text convert v = (case v of None \<Rightarrow> Some None | Some s \<Rightarrow> map_option Some (convert s))"

definition defaulted_int :: "(rat \<Rightarrow> int option) \<Rightarrow> rat option \<Rightarrow> int option" where
  "defaulted_int convert v = (case v of None \<Rightarrow> Some 0 | Some x \<Rightarrow> convert x)"

definition order_of_data ::
  "(rat \<Rightarrow> int option) \<Rightarrow> (nat \<Rightarrow> string \<Rightarrow> string option) \<Rightarrow> int \<Rightarrow> newOrder \<Rightarrow> int \<Rightarrow>
   order option" where
  "order_of_data int_column text_column db_time d i =
     (case text_column 50 (no_orderNumber d) of
        None \<Rightarrow> None
      | Some orderNumber \<Rightarrow>
     (case int_column (no_addressId d) of
        None \<Rightarrow> None
      | Some addressId \<Rightarrow>
     (case int_column (no_subtotal d) of
        None \<Rightarrow> None
      | Some subtotal \<Rightarrow>
     (case defaulted_int int_column (no_discountAmount d) of
        None \<Rightarrow> None
      | Some discountAmount \<Rightarrow>
     (case defaulted_int int_column (no_deliveryCharge d) of
        None \<Rightarrow> None
      | Some deliveryCharge \<Rightarrow>
     (case int_column (no_totalAmount d) of
        None \<Rightarrow> None
      | Some totalAmount \<Rightarrow>
     (case nullable_text (text_column 50) (no_couponCode d) of
        None \<Rightarrow> None
      | Some couponCode \<Rightarrow>
     (case nullable_text (text_column 65535) (no_notes d) of
        None \<Rightarrow> None
      | Some notes \<Rightarrow>
          Some
            \<lparr>order_id = i, order_userId = no_userId d, order_orderNumber = orderNumber,
             order_addressId = addressId, order_subtotal = subtotal,
             order_discountAmount = Some discountAmount,
             order_deliveryCharge = Some deliveryCharge,
             order_totalAmount = totalAmount,
             order_status = (case no_status d of None \<Rightarrow> Some Pending | Some v \<Rightarrow> Some v),
             order_paymentMethod = no_paymentMethod d,
             order_paymentStatus =
               (case no_paymentStatus d of None \<Rightarrow> Some PayPending | Some v \<Rightarrow> Some v),
             order_paymentId = None, order_couponCode = couponCode,
             order_estimatedDeliveryDate = None, order_deliveryOtp = None,
             order_deliveryOtpExpiry = None, order_deliveryOtpVerified = Some False,
             order_notes = notes, order_createdAt = db_time,
             order_updatedAt = db_time\<rparr>))))))))"

definition createOrder ::
  "database option \<Rightarrow> (rat \<Rightarrow> int option) \<Rightarrow> (nat \<Rightarrow> string \<Rightarrow> string option) \<Rightarrow> int \<Rightarrow>
   newOrder \<Rightarrow> int written" where
  "createOrder handle int_column text_column db_time d =
     (case handle of
        None \<Rightarrow> Inl DatabaseNotAvailable
      | Some db \<Rightarrow>
          (case order_of_data int_column text_column db_time d (nextId (orders db)) of
             None \<Rightarrow> Inl QueryFailed
           | Some row \<Rightarrow>
               if order_orderNumber row \<in> set (map order_orderNumber (rows (orders db)))
               then Inl DuplicateEntry
               else (let (insertId, t) = insert_row (\<lambda>i. row) (orders db)
                     in Inr (insertId, Some (db\<lparr>orders := t\<rparr>)))))"

definition getOrderById :: "database option \<Rightarrow> int \<Rightarrow> order option" where
  "getOrderById handle ident =
     (case handle of
        None \<Rightarrow> None
      | Some db \<Rightarrow> first_row (filter (\<lambda>r. order_id r = ident) (rows (orders db))))"

definition getUserOrders :: "database option \<Rightarrow> int \<Rightarrow> order list" where
  "getUserOrders handle userId =
     (case handle of
        None \<Rightarrow> []
      | Some db \<Rightarrow> filter (\<lambda>r. order_userId r = userId) (rows (orders db)))"

text \<open>
  \<open>updatedAt\<close> is declared \<open>onUpdateNow()\<close>: the store sets it to its current timestamp in
  every row that an update changes, and leaves a row alone that the update sets to the
  values it already holds.
\<close>

definition touch_order :: "int \<Rightarrow> (order \<Rightarrow> order) \<Rightarrow> order \<Rightarrow> order" where
  "touch_order db_time set_columns r =
     (if set_columns r = r then r else (set_columns r)\<lparr>order_updatedAt := db_time\<rparr>)"

definition updateOrderStatus ::
  "database option \<Rightarrow> int \<Rightarrow> int \<Rightarrow> order_status \<Rightarrow> unit written" where
  "updateOrderStatus handle db_time ident status =
     (case handle of
        None \<Rightarrow> Inl DatabaseNotAvailable
      | Some db \<Rightarrow>
          Inr ((), Some (db\<lparr>orders :=
            update_rows (\<lambda>r. order_id r = ident)
              (touch_order db_time (\<lambda>r. r\<lparr>order_status := Some status\<rparr>))
              (orders db)\<rparr>)))"

text \<open>
  \<open>if (paymentId) updateData.paymentId = paymentId\<close>: an empty string is not stored. Any
  other string goes to the column \<open>paymentId\<close>, which holds 100 characters; when the
  store refuses it for a row that the update selects, the update fails.
\<close>

definition updatePaymentStatus ::
  "database option \<Rightarrow> (nat \<Rightarrow> string \<Rightarrow> string option) \<Rightarrow> int \<Rightarrow> int \<Rightarrow> payment_status \<Rightarrow>
   string option \<Rightarrow> unit written" where
  "updatePaymentStatus handle text_column db_time ident paymentStatus paymentId =
     (case handle of
        None \<Rightarrow> Inl DatabaseNotAvailable
      | Some db \<Rightarrow>
          (let sent = (case paymentId of None \<Rightarrow> None | Some s \<Rightarrow> if s \<noteq> [] then Some s else None)
           in if (\<exists>r \<in> set (rows (orders db)). order_id r = ident) \<and>
                 (case sent of None \<Rightarrow> False | Some s \<Rightarrow> text_column 100 s = None)
              then Inl QueryFailed
              else Inr ((), Some (db\<lparr>orders :=
                update_rows (\<lambda>r. order_id r = ident)
                  (touch_order db_time
                    (\<lambda>r. r\<lparr>order_paymentStatus := Some paymentStatus,
                           order_paymentId := (case sent of
                                                 None \<Rightarrow> order_paymentId r
                                               | Some s \<Rightarrow> text_column 100 s)\<rparr>))
                  (orders db)\<rparr>))))"

record newOrderItem =
  noi_orderId :: int
  noi_productId :: int
  noi_productName :: string
  noi_productImage :: "string option"
  noi_quantity :: int
  noi_price :: int

definition createOrderItem :: "database option \<Rightarrow> newOrderItem \<Rightarrow> int written" where
  "createOrderItem handle d =
     (case handle of
        None \<Rightarrow> Inl DatabaseNotAvailable
      | Some db \<Rightarrow>
          (let (insertId, t) = insert_row (\<lambda>i.
                 \<lparr>oi_id = i, oi_orderId = noi_orderId d, oi_productId = noi_productId d,
                  oi_productName = noi_productName d, oi_productImage = noi_productImage d,
                  oi_quantity = noi_quantity d, oi_price = noi_price d\<rparr>) (orderItems db)
           in Inr (insertId, Some (db\<lparr>orderItems := t\<rparr>))))"

definition getOrderItems :: "database option \<Rightarrow> int \<Rightarrow> orderItem list" where
  "getOrderItems handle orderId =
     (case handle of
        None \<Rightarrow> []
      | Some db \<Rightarrow> filter (\<lambda>r. oi_orderId r = orderId) (rows (orderItems db)))"

record newReview =
  nr_productId :: int
  nr_userId :: int
  nr_rating :: int
  nr_title :: "string option"
  nr_comment :: "string option"
  nr_isVerified :: "bool option"

definition getProductReviews :: "database option \<Rightarrow> int \<Rightarrow> review list" where
  "getProductReviews handle productId =
     (case handle of
        None \<Rightarrow> []
      | Some db \<Rightarrow> filter (\<lambda>r. rev_productId r = productId) (rows (reviews db)))"

definition createReview :: "database option \<Rightarrow> newReview \<Rightarrow> int written" where
  "createReview handle d =
     (case handle of
        None \<Rightarrow> Inl DatabaseNotAvailable
      | Some db \<Rightarrow>
          (let (insertId, t) = insert_row (\<lambda>i.
                 \<lparr>rev_id = i, rev_productId = nr_productId d, rev_userId = nr_userId d,
                  rev_rating = nr_rating d, rev_title = nr_title d, rev_comment = nr_comment d,
                  rev_isVerified = (case nr_isVerified d of None \<Rightarrow> Some False | Some v \<Rightarrow> Some v)\<rparr>)
                 (reviews db)
           in Inr (insertId, Some (db\<lparr>reviews := t\<rparr>))))"

subsection \<open>Coupons and banners\<close>

definition getCouponByCode :: "database option \<Rightarrow> string \<Rightarrow> coupon option" where
  "getCouponByCode handle code =
     (case handle of
        None \<Rightarrow> None
      | Some db \<Rightarrow> first_row (filter (\<lambda>r. coupon_code r = code) (rows (coupons db))))"

text \<open>
  The checks of \<open>validateCoupon\<close>, each as the source writes it. \<open>coupon.isActive\<close> is a
  nullable boolean, so \<open>!coupon.isActive\<close> holds for \<open>false\<close> and for \<open>null\<close>. A date
  object is always truthy, so \<open>coupon.expiryDate && ...\<close> tests that the date is set. A
  number is truthy when it is not zero: \<open>coupon.usageLimit && ...\<close> and
  \<open>coupon.minOrderAmount && ...\<close> skip the comparison for \<open>null\<close> and for 0, and
  \<open>coupon.usageCount || 0\<close> reads \<open>null\<close> as 0.
\<close>

datatype validation = Invalid string | Valid coupon

definition is_inactive :: "coupon \<Rightarrow> bool" where
  "is_inactive c = (coupon_isActive c \<noteq> Some True)"

definition is_expired :: "int \<Rightarrow> coupon \<Rightarrow> bool" where
  "is_expired now c = (case coupon_expiryDate c of None \<Rightarrow> False | Some d \<Rightarrow> now > d)"

definition usage_limit_reached :: "coupon \<Rightarrow> bool" where
  "usage_limit_reached c =
     (case coupon_usageLimit c of
        None \<Rightarrow> False
      | Some l \<Rightarrow> l \<noteq> 0 \<and> (case coupon_usageCount c of None \<Rightarrow> 0 | Some n \<Rightarrow> n) \<ge> l)"

definition below_minimum :: "coupon \<Rightarrow> int \<Rightarrow> bool" where
  "below_minimum c orderAmount =
     (case coupon_minOrderAmount c of
        None \<Rightarrow> False
      | Some m \<Rightarrow> m \<noteq> 0 \<and> orderAmount < m)"

definition validateCoupon :: "database option \<Rightarrow> int \<Rightarrow> string \<Rightarrow> int \<Rightarrow> validation" where
  "validateCoupon handle now code orderAmount =
     (case getCouponByCode handle code of
        None \<Rightarrow> Invalid ''Coupon not found''
      | Some c \<Rightarrow>
          if is_inactive c then Invalid ''Coupon is inactive''
          else if is_expired now c then Invalid ''Coupon expired''
          else if usage_limit_reached c then Invalid ''Coupon usage limit reached''
          else if below_minimum c orderAmount then Invalid ''Order amount below minimum''
          else Valid c)"

definition getActiveBanners :: "database option \<Rightarrow> banner list" where
  "getActiveBanners handle =
     (case handle of
        None \<Rightarrow> []
      | Some db \<Rightarrow> filter (\<lambda>r. ban_isActive r = Some True) (rows (banners db)))"

section \<open>The router\<close>

text \<open>
  Modelled from the spec: \<open>protectedProcedure\<close> of \<open>_core/trpc\<close>, which is not among the
  sources. The spec has an authenticated-only procedure that is called without a valid
  session answer with a distinct unauthorized signal; with a session, the procedure's
  body runs with \<open>ctx.user\<close>. A \<open>publicProcedure\<close> runs its body for every caller.
\<close>

definition protectedProcedure :: "user option \<Rightarrow> (user \<Rightarrow> error + 'a) \<Rightarrow> error + 'a" where
  "protectedProcedure ctx_user body =
     (case ctx_user of None \<Rightarrow> Inl Unauthorized | Some u \<Rightarrow> body u)"

definition categories_list :: "database option \<Rightarrow> category list" where
  "categories_list handle = getCategories handle"

definition categories_bySlug :: "database option \<Rightarrow> string \<Rightarrow> category option" where
  "categories_bySlug handle slug = getCategoryBySlug handle slug"

definition products_list ::
  "database option \<Rightarrow> rat option \<Rightarrow> rat option \<Rightarrow> error + product list" where
  "products_list handle limit offset = getProducts handle limit offset"

definition products_byCategory ::
  "database option \<Rightarrow> int \<Rightarrow> rat option \<Rightarrow> rat option \<Rightarrow> error + product list" where
  "products_byCategory handle categoryId limit offset =
     getProductsByCategory handle categoryId limit offset"

definition products_byId :: "database option \<Rightarrow> int \<Rightarrow> product option" where
  "products_byId handle ident = getProductById handle ident"

text \<open>\<open>input.limit || 10\<close>: an absent and a zero limit become 10.\<close>

definition products_featured :: "database option \<Rightarrow> rat option \<Rightarrow> error + product list" where
  "products_featured handle limit =
     getFeaturedProducts handle
       (Some (case limit of None \<Rightarrow> 10 | Some l \<Rightarrow> if l \<noteq> 0 then l else 10))"

definition cart_list :: "user option \<Rightarrow> database option \<Rightarrow> error + cartItem list" where
  "cart_list ctx_user handle =
     protectedProcedure ctx_user (\<lambda>u. Inr (getCartItems handle (user_id u)))"

text \<open>\<open>quantity: z.number().default(1)\<close>: an absent quantity is 1.\<close>

definition cart_add :: "user option \<Rightarrow> database option \<Rightarrow> int \<Rightarrow> int option \<Rightarrow> int written" where
  "cart_add ctx_user handle productId quantity =
     protectedProcedure ctx_user (\<lambda>u.
       addToCart handle (user_id u) productId
         (Some (case quantity of None \<Rightarrow> 1 | Some q \<Rightarrow> q)))"

definition cart_update :: "user option \<Rightarrow> database option \<Rightarrow> int \<Rightarrow> int \<Rightarrow> unit written" where
  "cart_update ctx_user handle ident quantity =
     protectedProcedure ctx_user (\<lambda>u. updateCartItem handle ident quantity)"

definition cart_remove :: "user option \<Rightarrow> database option \<Rightarrow> int \<Rightarrow> unit written" where
  "cart_remove ctx_user handle ident =
     protectedProcedure ctx_user (\<lambda>u. removeFromCart handle ident)"

definition cart_clear :: "user option \<Rightarrow> database option \<Rightarrow> unit written" where
  "cart_clear ctx_user handle =
     protectedProcedure ctx_user (\<lambda>u. clearCart handle (user_id u))"

definition wishlist_list :: "user option \<Rightarrow> database option \<Rightarrow> error + wishlistItem list" where
  "wishlist_list ctx_user handle =
     protectedProcedure ctx_user (\<lambda>u. Inr (getWishlistItems handle (user_id u)))"

definition wishlist_add :: "user option \<Rightarrow> database option \<Rightarrow> int \<Rightarrow> int written" where
  "wishlist_add ctx_user handle productId =
     protectedProcedure ctx_user (\<lambda>u. addToWishlist handle (user_id u) productId)"

definition wishlist_remove :: "user option \<Rightarrow> database option \<Rightarrow> int \<Rightarrow> unit written" where
  "wishlist_remove ctx_user handle productId =
     protectedProcedure ctx_user (\<lambda>u. removeFromWishlist handle (user_id u) productId)"

definition addresses_list :: "user option \<Rightarrow> database option \<Rightarrow> error + address list" where
  "addresses_list ctx_user handle =
     protectedProcedure ctx_user (\<lambda>u. Inr (getUserAddresses handle (user_id u)))"

text \<open>
  The input of \<open>addresses.add\<close> is a \<open>newAddress\<close> whose \<open>userId\<close> the procedure sets:
  \<open>{ ...input, userId: ctx.user.id }\<close>.
\<close>

definition addresses_add :: "user option \<Rightarrow> database option \<Rightarrow> newAddress \<Rightarrow> int written" where
  "addresses_add ctx_user handle input =
     protectedProcedure ctx_user (\<lambda>u. addAddress handle (input\<lparr>na_userId := user_id u\<rparr>))"

definition addresses_update ::
  "user option \<Rightarrow> database option \<Rightarrow> int \<Rightarrow> addressPatch \<Rightarrow> unit written" where
  "addresses_update ctx_user handle ident d =
     protectedProcedure ctx_user (\<lambda>u. updateAddress handle ident d)"

definition addresses_delete :: "user option \<Rightarrow> database option \<Rightarrow> int \<Rightarrow> unit written" where
  "addresses_delete ctx_user handle ident =
     protectedProcedure ctx_user (\<lambda>u. deleteAddress handle ident)"

definition orders_list :: "user option \<Rightarrow> database option \<Rightarrow> error + order list" where
  "orders_list ctx_user handle =
     protectedProcedure ctx_user (\<lambda>u. Inr (getUserOrders handle (user_id u)))"

definition orders_byId :: "user option \<Rightarrow> database option \<Rightarrow> int \<Rightarrow> error + order option" where
  "orders_byId ctx_user handle ident =
     protectedProcedure ctx_user (\<lambda>u. Inr (getOrderById handle ident))"

text \<open>
  The input of \<open>orders.create\<close>, as its \<open>z.object\<close> declares it: the address and the
  four figures are \<open>z.number()\<close>, any finite number, and the coupon code and the notes are
  \<open>z.string()\<close>, of any length. The order number is
  \<open>ORD-\<close>, the decimal digits of \<open>Date.now()\<close>, a dash and the random suffix
  \<open>Math.random().toString(36).substr(2, 9)\<close>; the clock and the suffix are parameters.
\<close>

record orderInput =
  oin_addressId :: rat
  oin_subtotal :: rat
  oin_discountAmount :: "rat option"
  oin_deliveryCharge :: "rat option"
  oin_totalAmount :: rat
  oin_paymentMethod :: payment_method
  oin_couponCode :: "string option"
  oin_notes :: "string option"

fun decimal :: "nat \<Rightarrow> string" where
  "decimal n =
     (if n < 10 then [char_of (48 + n)]
      else decimal (n div 10) @ [char_of (48 + n mod 10)])"

declare decimal.simps [simp del]

definition orders_create ::
  "user option \<Rightarrow> database option \<Rightarrow> (rat \<Rightarrow> int option) \<Rightarrow> (nat \<Rightarrow> string \<Rightarrow> string option) \<Rightarrow>
   int \<Rightarrow> nat \<Rightarrow> string \<Rightarrow> orderInput \<Rightarrow> int written" where
  "orders_create ctx_user handle int_column text_column db_time date_now suffix input =
     protectedProcedure ctx_user (\<lambda>u.
       (let orderNumber = ''ORD-'' @ decimal date_now @ ''-'' @ suffix
        in createOrder handle int_column text_column db_time
             \<lparr>no_userId = user_id u, no_orderNumber = orderNumber,
              no_addressId = oin_addressId input, no_subtotal = oin_subtotal input,
              no_discountAmount = oin_discountAmount input,
              no_deliveryCharge = oin_deliveryCharge input,
              no_totalAmount = oin_totalAmount input,
              no_status = Some Pending,
              no_paymentMethod = Some (oin_paymentMethod input),
              no_paymentStatus = Some PayPending,
              no_couponCode = oin_couponCode input, no_notes = oin_notes input\<rparr>))"

definition orders_updateStatus ::
  "user option \<Rightarrow> database option \<Rightarrow> int \<Rightarrow> int \<Rightarrow> order_status \<Rightarrow> unit written" where
  "orders_updateStatus ctx_user handle db_time ident status =
     protectedProcedure ctx_user (\<lambda>u. updateOrderStatus handle db_time ident status)"

definition orders_updatePaymentStatus ::
  "user option \<Rightarrow> database option \<Rightarrow> (nat \<Rightarrow> string \<Rightarrow> string option) \<Rightarrow> int \<Rightarrow> int \<Rightarrow>
   payment_status \<Rightarrow> string option \<Rightarrow> unit written" where
  "orders_updatePaymentStatus ctx_user handle text_column db_time ident paymentStatus paymentId =
     protectedProcedure ctx_user
       (\<lambda>u. updatePaymentStatus handle text_column db_time ident paymentStatus paymentId)"

definition orderItems_byOrderId ::
  "user option \<Rightarrow> database option \<Rightarrow> int \<Rightarrow> error + orderItem list" where
  "orderItems_byOrderId ctx_user handle orderId =
     protectedProcedure ctx_user (\<lambda>u. Inr (getOrderItems handle orderId))"

definition orderItems_create ::
  "user option \<Rightarrow> database option \<Rightarrow> newOrderItem \<Rightarrow> int written" where
  "orderItems_create ctx_user handle input =
     protectedProcedure ctx_user (\<lambda>u. createOrderItem handle input)"

definition reviews_byProductId :: "database option \<Rightarrow> int \<Rightarrow> review list" where
  "reviews_byProductId handle productId = getProductReviews handle productId"

text \<open>
  \<open>rating: z.number().min(1).max(5)\<close> refuses a rating outside 1 to 5; the procedure
  sets \<open>userId\<close> and \<open>isVerified: false\<close>.
\<close>

definition reviews_create :: "user option \<Rightarrow> database option \<Rightarrow> newReview \<Rightarrow> int written" where
  "reviews_create ctx_user handle input =
     protectedProcedure ctx_user (\<lambda>u.
       if nr_rating input < 1 \<or> 5 < nr_rating input then Inl BadRequest
       else createReview handle (input\<lparr>nr_userId := user_id u, nr_isVerified := Some False\<rparr>))"

definition coupons_validate :: "database option \<Rightarrow> int \<Rightarrow> string \<Rightarrow> int \<Rightarrow> validation" where
  "coupons_validate handle now code orderAmount = validateCoupon handle now code orderAmount"

definition banners_list :: "database option \<Rightarrow> banner list" where
  "banners_list handle = getActiveBanners handle"

section \<open>Delivery OTP\<close>

text \<open>
  Modelled from the spec: the verification of a delivery OTP. The schema declares the
  columns \<open>deliveryOtp\<close>, \<open>deliveryOtpExpiry\<close> and \<open>deliveryOtpVerified\<close> of an order; no
  access function and no procedure of the router reads or sets them, and the design
  notes list the verification endpoint and the expiration logic as not yet implemented.
  The spec: verifying compares the supplied code against the stored code and succeeds
  only if the codes match exactly and the current time is before the stored expiry. An
  order with no code or no expiry stored verifies no code.
\<close>

definition verifyDeliveryOtp :: "int \<Rightarrow> order \<Rightarrow> string \<Rightarrow> bool" where
  "verifyDeliveryOtp now ord supplied =
     (case order_deliveryOtp ord of
        None \<Rightarrow> False
      | Some otp \<Rightarrow>
          (case order_deliveryOtpExpiry ord of
             None \<Rightarrow> False
           | Some expiry \<Rightarrow> supplied = otp \<and> now < expiry))"

section \<open>The discounted price of the home screen\<close>

text \<open>
  \<open>getDiscountedPrice\<close> computes \<open>price * (1 - discountPercentage / 100)\<close> on JavaScript
  numbers, which are IEEE 754 doubles: each of the three operations returns the exact
  result rounded to the nearest double, ties to the even significand. A finite double is
  a rational number, and \<open>to_double\<close> rounds a rational to 53 significant bits:
  \<open>binade x\<close> is the exponent \<open>e\<close> with \<open>2\<^sup>e \<le> |x| < 2\<^sup>e\<^sup>+\<^sup>1\<close>, and the doubles of that
  binade are the multiples of \<open>2\<^sup>e\<^sup>-\<^sup>5\<^sup>2\<close>. The exponent is not bounded here: for a price and
  a percentage that are integers of the 32-bit columns, no operand and no result leaves
  the range of the normal doubles.
\<close>

definition round_half_even :: "rat \<Rightarrow> int" where
  "round_half_even x =
     (let f = \<lfloor>x\<rfloor>; r = x - of_int f
      in if r < 1 / 2 then f
         else if 1 / 2 < r then f + 1
         else if even f then f else f + 1)"

definition binade :: "rat \<Rightarrow> int" where
  "binade x =
     (let (p, q) = quotient_of \<bar>x\<bar>; e = bitlen p - bitlen q
      in if 2 powi e \<le> \<bar>x\<bar> then e else e - 1)"

definition to_double :: "rat \<Rightarrow> rat" where
  "to_double x =
     (if x = 0 then 0
      else (let ulp = 2 powi (binade x - 52)
            in of_int (round_half_even (x / ulp)) * ulp))"

definition getDiscountedPrice :: "int \<Rightarrow> int \<Rightarrow> rat" where
  "getDiscountedPrice price discountPercentage =
     to_double (of_int price * to_double (1 - to_double (of_int discountPercentage / 100)))"

section \<open>Example stores\<close>

text \<open>
  Concrete users, rows and inputs, at which the properties below are evaluated.
\<close>

definition no_rows :: "'r table" where
  "no_rows = \<lparr>rows = [], nextId = 1\<rparr>"

definition empty_database :: database where
  "empty_database =
     \<lparr>users = no_rows, categories = no_rows, products = no_rows, cartItems = no_rows,
      wishlistItems = no_rows, addresses = no_rows, orders = no_rows, orderItems = no_rows,
      reviews = no_rows, coupons = no_rows, banners = no_rows\<rparr>"

definition alice :: user where
  "alice = \<lparr>user_id = 1, user_openId = ''alice'', user_name = None, user_email = None,
             user_loginMethod = None, user_role = RoleUser, user_lastSignedIn = 0\<rparr>"

definition bob :: user where
  "bob = \<lparr>user_id = 2, user_openId = ''bob'', user_name = None, user_email = None,
           user_loginMethod = None, user_role = RoleUser, user_lastSignedIn = 0\<rparr>"

text \<open>
  A store that rounds a number to the nearest integer, a half away from zero, and
  refuses the integer that is outside the signed 32-bit range of its column.
\<close>

definition rounding_column :: "rat \<Rightarrow> int option" where
  "rounding_column x =
     (let n = (if 0 \<le> x then \<lfloor>x + 1 / 2\<rfloor> else \<lceil>x - 1 / 2\<rceil>)
      in if - 2147483648 \<le> n \<and> n \<le> 2147483647 then Some n else None)"

text \<open>A store that refuses a string longer than its column.\<close>

definition fitting_column :: "nat \<Rightarrow> string \<Rightarrow> string option" where
  "fitting_column n s = (if length s \<le> n then Some s else None)"

definition underpaid_input :: orderInput where
  "underpaid_input =
     \<lparr>oin_addressId = 1, oin_subtotal = 100, oin_discountAmount = None,
      oin_deliveryCharge = None, oin_totalAmount = 5, oin_paymentMethod = Cod,
      oin_couponCode = None, oin_notes = None\<rparr>"

definition underpaid_order :: order where
  "underpaid_order =
     \<lparr>order_id = 1, order_userId = 1, order_orderNumber = ''ORD-42-k3j9x0q1z'',
      order_addressId = 1, order_subtotal = 100, order_discountAmount = Some 0,
      order_deliveryCharge = Some 0, order_totalAmount = 5, order_status = Some Pending,
      order_paymentMethod = Some Cod, order_paymentStatus = Some PayPending,
      order_paymentId = None, order_couponCode = None, order_estimatedDeliveryDate = None,
      order_deliveryOtp = None, order_deliveryOtpExpiry = None,
      order_deliveryOtpVerified = Some False, order_notes = None,
      order_createdAt = 5000, order_updatedAt = 5000\<rparr>"

definition spent_coupon :: coupon where
  "spent_coupon =
     \<lparr>coupon_id = 1, coupon_code = ''SAVE10'', coupon_description = None,
      coupon_discountType = Percentage, coupon_discountValue = 10,
      coupon_minOrderAmount = Some 0, coupon_maxDiscount = None,
      coupon_usageLimit = Some 1, coupon_usageCount = Some 1,
      coupon_expiryDate = Some 1000, coupon_isActive = Some True\<rparr>"

definition zero_limit_coupon :: coupon where
  "zero_limit_coupon =
     \<lparr>coupon_id = 1, coupon_code = ''FREE'', coupon_description = None,
      coupon_discountType = Fixed, coupon_discountValue = 3000,
      coupon_minOrderAmount = Some 0, coupon_maxDiscount = None,
      coupon_usageLimit = Some 0, coupon_usageCount = Some 0,
      coupon_expiryDate = None, coupon_isActive = Some True\<rparr>"

definition full_coupon :: coupon where
  "full_coupon =
     \<lparr>coupon_id = 1, coupon_code = ''SAVE10'', coupon_description = None,
      coupon_discountType = Percentage, coupon_discountValue = 10,
      coupon_minOrderAmount = Some 0, coupon_maxDiscount = None,
      coupon_usageLimit = Some 1, coupon_usageCount = Some 1,
      coupon_expiryDate = None, coupon_isActive = Some True\<rparr>"

definition coupon_store :: "coupon \<Rightarrow> database" where
  "coupon_store c = empty_database\<lparr>coupons := \<lparr>rows = [c], nextId = 2\<rparr>\<rparr>"

definition delivered_order :: order where
  "delivered_order =
     \<lparr>order_id = 1, order_userId = 1, order_orderNumber = ''ORD-7-a1b2c3d4e'',
      order_addressId = 1, order_subtotal = 22500, order_discountAmount = Some 3000,
      order_deliveryCharge = Some 0, order_totalAmount = 19500, order_status = Some Delivered,
      order_paymentMethod = Some Upi, order_paymentStatus = Some PayCompleted,
      order_paymentId = None, order_couponCode = None, order_estimatedDeliveryDate = None,
      order_deliveryOtp = None, order_deliveryOtpExpiry = None,
      order_deliveryOtpVerified = Some False, order_notes = None,
      order_createdAt = 3000, order_updatedAt = 3000\<rparr>"

definition order_store :: "order \<Rightarrow> database" where
  "order_store r = empty_database\<lparr>orders := \<lparr>rows = [r], nextId = 2\<rparr>\<rparr>"

definition bobs_item :: cartItem where
  "bobs_item = \<lparr>cart_id = 1, cart_userId = 2, cart_productId = 10, cart_quantity = 3\<rparr>"

definition cart_store :: "cartItem list \<Rightarrow> database" where
  "cart_store xs = empty_database\<lparr>cartItems := \<lparr>rows = xs, nextId = int (length xs) + 1\<rparr>\<rparr>"

definition alices_wishlist :: "wishlistItem list" where
  "alices_wishlist =
     [\<lparr>wish_id = 1, wish_userId = 1, wish_productId = 10\<rparr>,
      \<lparr>wish_id = 2, wish_userId = 1, wish_productId = 20\<rparr>]"

definition wishlist_store :: "wishlistItem list \<Rightarrow> database" where
  "wishlist_store xs = empty_database\<lparr>wishlistItems := \<lparr>rows = xs, nextId = 3\<rparr>\<rparr>"

definition new_visitor :: insertUser where
  "new_visitor = \<lparr>iu_openId = ''carol'', iu_name = None, iu_email = None,
                   iu_loginMethod = None, iu_role = None, iu_lastSignedIn = None\<rparr>"

definition otp_order :: order where
  "otp_order =
     \<lparr>order_id = 1, order_userId = 1, order_orderNumber = ''ORD-9-z9y8x7w6v'',
      order_addressId = 1, order_subtotal = 22500, order_discountAmount = Some 0,
      order_deliveryCharge = Some 0, order_totalAmount = 22500, order_status = Some Shipped,
      order_paymentMethod = Some Cod, order_paymentStatus = Some PayPending,
      order_paymentId = None, order_couponCode = None, order_estimatedDeliveryDate = None,
      order_deliveryOtp = Some ''123456'', order_deliveryOtpExpiry = Some 999,
      order_deliveryOtpVerified = Some False, order_notes = None,
      order_createdAt = 4000, order_updatedAt = 4000\<rparr>"

definition hidden_product :: product where
  "hidden_product =
     \<lparr>prod_id = 1, prod_categoryId = 7, prod_name = ''Rice'', prod_description = None,
      prod_price = 999, prod_originalPrice = None, prod_discountPercentage = Some 10,
      prod_imageUrl = None, prod_images = None, prod_sku = None, prod_stock = 0,
      prod_rating = None, prod_reviewCount = None, prod_isActive = False,
      prod_isFeatured = None\<rparr>"

definition product_store :: "product list \<Rightarrow> database" where
  "product_store xs = empty_database\<lparr>products := \<lparr>rows = xs, nextId = int (length xs) + 1\<rparr>\<rparr>"

section \<open>Properties\<close>

subsection \<open>Rounding to a double\<close>

lemma round_half_even_le: "x \<le> of_int n \<Longrightarrow> round_half_even x \<le> n"
proof -
  assume h: "x \<le> of_int n"
  have f: "\<lfloor>x\<rfloor> \<le> n" using h by (simp add: floor_le_iff)
  show ?thesis
  proof (cases "\<lfloor>x\<rfloor> = n")
    case True
    then have "of_int n \<le> x" by (metis of_int_floor_le)
    with h have "x = of_int n" by simp
    then show ?thesis by (simp add: round_half_even_def)
  next
    case False
    with f have "\<lfloor>x\<rfloor> + 1 \<le> n" by simp
    then show ?thesis by (simp add: round_half_even_def Let_def)
  qed
qed

lemma round_half_even_ge: "of_int n \<le> x \<Longrightarrow> n \<le> round_half_even x"
proof -
  assume "of_int n \<le> x"
  then have "n \<le> \<lfloor>x\<rfloor>" by (simp add: le_floor_iff)
  then show ?thesis by (simp add: round_half_even_def Let_def)
qed

lemma round_half_even_err: "\<bar>of_int (round_half_even x) - x\<bar> \<le> 1 / 2"
proof -
  have a: "of_int \<lfloor>x\<rfloor> \<le> x" and b: "x < of_int \<lfloor>x\<rfloor> + 1" by linarith+
  consider "x - of_int \<lfloor>x\<rfloor> < 1 / 2" | "1 / 2 < x - of_int \<lfloor>x\<rfloor>"
    | "x - of_int \<lfloor>x\<rfloor> = 1 / 2" by linarith
  then show ?thesis
  proof cases
    case 1
    then have "round_half_even x = \<lfloor>x\<rfloor>" by (simp add: round_half_even_def Let_def)
    then show ?thesis using a 1 by simp
  next
    case 2
    then have "round_half_even x = \<lfloor>x\<rfloor> + 1" by (simp add: round_half_even_def Let_def)
    then show ?thesis using b 2 by simp
  next
    case 3
    then have "round_half_even x = \<lfloor>x\<rfloor> \<or> round_half_even x = \<lfloor>x\<rfloor> + 1"
      by (simp add: round_half_even_def Let_def)
    then show ?thesis using 3 by auto
  qed
qed

lemma binade_lower: "0 < x \<Longrightarrow> 2 powi binade x \<le> x"
proof -
  assume pos: "0 < x"
  obtain p q where pq: "quotient_of x = (p, q)" by (cases "quotient_of x")
  have q: "0 < q" using pq by (rule quotient_of_denom_pos)
  have x: "x = of_int p / of_int q" using pq by (rule quotient_of_div)
  have p: "0 < p" using pos q x by (simp add: zero_less_divide_iff)
  define e where "e = bitlen p - bitlen q"
  show ?thesis
  proof (cases "2 powi e \<le> x")
    case True
    then show ?thesis using pos pq by (simp add: binade_def e_def)
  next
    case False
    then have b: "binade x = e - 1" using pos pq by (simp add: binade_def e_def)
    have lp: "2 ^ nat (bitlen p - 1) \<le> p" using bitlen_bounds [OF p] by simp
    have uq: "q < 2 ^ nat (bitlen q)" using bitlen_bounds [OF q] by simp
    have bp: "1 \<le> bitlen p" using p by (simp add: bitlen_alt_def)
    have bq: "1 \<le> bitlen q" using q by (simp add: bitlen_alt_def)
    have lp': "(2::rat) powi (bitlen p - 1) \<le> of_int p"
    proof -
      have "(of_int (2 ^ nat (bitlen p - 1)) :: rat) \<le> of_int p" using lp by (simp only: of_int_le_iff)
      then show ?thesis using bp by (simp add: power_int_def)
    qed
    have uq': "(of_int q :: rat) \<le> 2 powi bitlen q"
    proof -
      have "(of_int q :: rat) \<le> of_int (2 ^ nat (bitlen q))" using uq by (simp only: of_int_le_iff)
      then show ?thesis using bq by (simp add: power_int_def)
    qed
    have "(2::rat) powi (e - 1) = 2 powi (bitlen p - 1) / 2 powi bitlen q"
      by (simp add: e_def power_int_diff)
    also have "\<dots> \<le> of_int p / 2 powi bitlen q"
      using lp' by (simp add: divide_right_mono)
    also have "\<dots> \<le> of_int p / of_int q"
      using uq' p q by (simp add: frac_le)
    finally show ?thesis using b x by simp
  qed
qed

lemma binade_upper: "0 < x \<Longrightarrow> x < 2 powi (binade x + 1)"
proof -
  assume pos: "0 < x"
  obtain p q where pq: "quotient_of x = (p, q)" by (cases "quotient_of x")
  have q: "0 < q" using pq by (rule quotient_of_denom_pos)
  have x: "x = of_int p / of_int q" using pq by (rule quotient_of_div)
  have p: "0 < p" using pos q x by (simp add: zero_less_divide_iff)
  define e where "e = bitlen p - bitlen q"
  show ?thesis
  proof (cases "2 powi e \<le> x")
    case False
    then have "binade x = e - 1" using pos pq by (simp add: binade_def e_def)
    then show ?thesis using False by simp
  next
    case True
    then have b: "binade x = e" using pos pq by (simp add: binade_def e_def)
    have up: "p < 2 ^ nat (bitlen p)" using bitlen_bounds [OF p] by simp
    have lq: "2 ^ nat (bitlen q - 1) \<le> q" using bitlen_bounds [OF q] by simp
    have bp: "1 \<le> bitlen p" using p by (simp add: bitlen_alt_def)
    have bq: "1 \<le> bitlen q" using q by (simp add: bitlen_alt_def)
    have up': "(of_int p :: rat) < 2 powi bitlen p"
    proof -
      have "(of_int p :: rat) < of_int (2 ^ nat (bitlen p))" using up by (simp only: of_int_less_iff)
      then show ?thesis using bp by (simp add: power_int_def)
    qed
    have lq': "(2::rat) powi (bitlen q - 1) \<le> of_int q"
    proof -
      have "(of_int (2 ^ nat (bitlen q - 1)) :: rat) \<le> of_int q" using lq by (simp only: of_int_le_iff)
      then show ?thesis using bq by (simp add: power_int_def)
    qed
    have pw: "(0::rat) < 2 powi (bitlen q - 1)" by (simp add: zero_less_power_int)
    have "x = of_int p / of_int q" by (rule x)
    also have "\<dots> \<le> of_int p / 2 powi (bitlen q - 1)"
      using lq' p pw by (simp add: frac_le)
    also have "\<dots> < 2 powi bitlen p / 2 powi (bitlen q - 1)"
      using up' pw by (simp add: divide_strict_right_mono)
    also have "\<dots> = 2 powi (bitlen p - (bitlen q - 1))" by (simp add: power_int_diff)
    also have "bitlen p - (bitlen q - 1) = e + 1" by (simp add: e_def)
    finally show ?thesis using b by simp
  qed
qed

lemma to_double_nonneg: "0 \<le> x \<Longrightarrow> 0 \<le> to_double x"
proof (cases "x = 0")
  case True
  then show ?thesis by (simp add: to_double_def)
next
  case False
  assume "0 \<le> x"
  define ulp :: rat where "ulp = 2 powi (binade x - 52)"
  have u: "0 < ulp" by (simp add: ulp_def zero_less_power_int)
  have "of_int 0 \<le> x / ulp" using \<open>0 \<le> x\<close> u by simp
  then have "0 \<le> round_half_even (x / ulp)" by (rule round_half_even_ge)
  then have "0 \<le> of_int (round_half_even (x / ulp)) * ulp" using u by simp
  then show ?thesis using False by (simp add: to_double_def Let_def ulp_def)
qed

lemma to_double_le_int:
  assumes pos: "0 < x" and le: "x \<le> of_int n" and n: "n < 2 ^ 53"
  shows "to_double x \<le> of_int n"
proof -
  define e where "e = binade x"
  define ulp :: rat where "ulp = 2 powi (e - 52)"
  have u: "0 < ulp" by (simp add: ulp_def zero_less_power_int)
  have "2 powi e \<le> x" unfolding e_def using pos by (rule binade_lower)
  also have "x \<le> of_int n" by (rule le)
  also have "(of_int n :: rat) < of_int (2 ^ 53)" using n by (simp only: of_int_less_iff)
  finally have "(2::rat) powi e < 2 powi 53" by simp
  then have "e < 53" by (rule power_int_le_imp_less_exp [rotated]) simp_all
  then have k: "0 \<le> 52 - e" by simp
  have ulp_inv: "ulp * 2 ^ nat (52 - e) = 1"
  proof -
    have "ulp * 2 ^ nat (52 - e) = 2 powi (e - 52) * 2 powi (52 - e)"
      using k by (simp add: ulp_def power_int_def)
    also have "\<dots> = 2 powi ((e - 52) + (52 - e))"
      by (rule power_int_add [symmetric]) simp
    finally show ?thesis by simp
  qed
  then have div: "x / ulp = x * 2 ^ nat (52 - e)" using u by (simp add: field_simps)
  have "x / ulp \<le> of_int n * 2 ^ nat (52 - e)" unfolding div using le by simp
  then have "x / ulp \<le> of_int (n * 2 ^ nat (52 - e))" by simp
  then have "round_half_even (x / ulp) \<le> n * 2 ^ nat (52 - e)" by (rule round_half_even_le)
  then have "(of_int (round_half_even (x / ulp)) :: rat) \<le> of_int (n * 2 ^ nat (52 - e))"
    by (simp only: of_int_le_iff)
  then have "of_int (round_half_even (x / ulp)) * ulp \<le> of_int (n * 2 ^ nat (52 - e)) * ulp"
    using u by (simp only: mult_le_cancel_right_pos)
  also have "\<dots> = of_int n * (ulp * 2 ^ nat (52 - e))" by simp
  also have "\<dots> = of_int n" by (simp only: ulp_inv mult_1_right)
  finally show ?thesis using pos by (simp add: to_double_def Let_def ulp_def e_def)
qed

lemma to_double_err:
  assumes "0 \<le> x"
  shows "\<bar>to_double x - x\<bar> \<le> x / 2 ^ 53"
proof (cases "x = 0")
  case True
  then show ?thesis by (simp add: to_double_def)
next
  case False
  with assms have pos: "0 < x" by simp
  define ulp :: rat where "ulp = 2 powi (binade x - 52)"
  have u: "0 < ulp" by (simp add: ulp_def zero_less_power_int)
  have td: "to_double x = of_int (round_half_even (x / ulp)) * ulp"
    using False by (simp add: to_double_def Let_def ulp_def)
  have "ulp = 2 powi binade x / 2 powi 52" by (simp add: ulp_def power_int_diff)
  also have "\<dots> \<le> x / 2 powi 52" using binade_lower [OF pos] by (simp add: divide_right_mono)
  finally have ulp_le: "ulp \<le> x / 2 ^ 52" by simp
  have "to_double x - x = (of_int (round_half_even (x / ulp)) - x / ulp) * ulp"
    using u by (simp add: td left_diff_distrib)
  then have "\<bar>to_double x - x\<bar> = \<bar>of_int (round_half_even (x / ulp)) - x / ulp\<bar> * ulp"
    using u by (simp only: abs_mult abs_of_pos)
  also have "\<dots> \<le> (1 / 2) * ulp"
    using round_half_even_err [of "x / ulp"] u by (simp only: mult_le_cancel_right_pos)
  also have "\<dots> \<le> (1 / 2) * (x / 2 ^ 52)" using ulp_le by simp
  finally show ?thesis by simp
qed

lemma to_double_le_int0:
  assumes "0 \<le> x" and "x \<le> of_int n" and "n < 2 ^ 53"
  shows "to_double x \<le> of_int n"
proof (cases "x = 0")
  case True
  then show ?thesis using assms by (simp add: to_double_def)
next
  case False
  with assms(1) have "0 < x" by simp
  then show ?thesis using assms(2,3) by (rule to_double_le_int)
qed

lemma to_double_unit: "0 \<le> x \<Longrightarrow> x \<le> 1 \<Longrightarrow> 0 \<le> to_double x \<and> to_double x \<le> 1"
  using to_double_nonneg [of x] to_double_le_int0 [of x 1] by simp

subsection \<open>Order totals\<close>

lemma decimal_42: "decimal 42 = ''42''"
  by code_simp

lemma rounding_column_int:
  assumes "- 2147483648 \<le> n" and "n \<le> 2147483647"
  shows "rounding_column (of_int n) = Some n"
proof -
  have up: "\<lfloor>(of_int n :: rat) + 1 / 2\<rfloor> = n" by (rule floor_unique) simp_all
  have down: "\<lceil>(of_int n :: rat) - 1 / 2\<rceil> = n" by (rule ceiling_unique) simp_all
  show ?thesis using assms by (simp add: rounding_column_def up down)
qed

lemma rounding_column_values:
  "rounding_column 1 = Some 1" "rounding_column 5 = Some 5" "rounding_column 100 = Some 100"
  using rounding_column_int [of 1] rounding_column_int [of 5] rounding_column_int [of 100]
  by simp_all

text \<open>
  C1, as the spec states it, fails: \<open>orders.create\<close> sends the figures of its input to
  the store as they are. A caller who sends subtotal 100, no discount, no delivery charge
  and total 5 gets an order row whose total is 5 and not 100.
\<close>

theorem orders_create_total_counterexample:
  "orders_create (Some alice) (Some empty_database) rounding_column fitting_column 5000 42
       ''k3j9x0q1z'' underpaid_input
     = Inr (1, Some (empty_database\<lparr>orders := \<lparr>rows = [underpaid_order], nextId = 2\<rparr>\<rparr>))
   \<and> order_totalAmount underpaid_order
        \<noteq> order_subtotal underpaid_order - the (order_discountAmount underpaid_order)
            + the (order_deliveryCharge underpaid_order)"
  by (simp add: orders_create_def protectedProcedure_def createOrder_def insert_row_def
      order_of_data_def defaulted_int_def nullable_text_def fitting_column_def
      underpaid_input_def underpaid_order_def alice_def empty_database_def
      no_rows_def decimal_42 rounding_column_values)

text \<open>
  C1, amended: for an authenticated caller on an available store, \<open>orders.create\<close>
  succeeds exactly when the store's columns take the order number it generates, the
  address, the four figures (an absent discount or delivery charge being 0), the coupon
  code and the notes, and the order number is not yet stored. The row it then produces
  holds, as subtotal, discount, delivery charge and total, what the column conversion
  makes of each number sent; it belongs to the caller and is pending. No relation
  between the figures is computed or checked: the call succeeds whatever the total is.
\<close>

theorem orders_create_stores_input:
  "(text_column 50 (''ORD-'' @ decimal date_now @ ''-'' @ suffix) = Some number
    \<and> number \<notin> set (map order_orderNumber (rows (orders db)))
    \<and> int_column (oin_addressId input) = Some a
    \<and> int_column (oin_subtotal input) = Some s
    \<and> defaulted_int int_column (oin_discountAmount input) = Some d
    \<and> defaulted_int int_column (oin_deliveryCharge input) = Some c
    \<and> int_column (oin_totalAmount input) = Some t
    \<and> nullable_text (text_column 50) (oin_couponCode input) = Some coupon
    \<and> nullable_text (text_column 65535) (oin_notes input) = Some notes
    \<longrightarrow> (\<exists>row. orders_create (Some u) (Some db) int_column text_column db_time date_now suffix
                 input
               = Inr (nextId (orders db),
                      Some (db\<lparr>orders := (orders db)\<lparr>rows := rows (orders db) @ [row],
                                                     nextId := nextId (orders db) + 1\<rparr>\<rparr>))
          \<and> order_id row = nextId (orders db) \<and> order_userId row = user_id u
          \<and> order_orderNumber row = number
          \<and> order_addressId row = a \<and> order_subtotal row = s
          \<and> order_discountAmount row = Some d \<and> order_deliveryCharge row = Some c
          \<and> order_totalAmount row = t
          \<and> order_status row = Some Pending \<and> order_paymentStatus row = Some PayPending))
   \<and> (\<forall>insertId h.
        orders_create (Some u) (Some db) int_column text_column db_time date_now suffix input
          = Inr (insertId, h)
        \<longrightarrow> (\<exists>row. h = Some (db\<lparr>orders := (orders db)\<lparr>rows := rows (orders db) @ [row],
                                                     nextId := nextId (orders db) + 1\<rparr>\<rparr>)
               \<and> order_id row = insertId \<and> order_userId row = user_id u
               \<and> text_column 50 (''ORD-'' @ decimal date_now @ ''-'' @ suffix)
                    = Some (order_orderNumber row)
               \<and> order_orderNumber row \<notin> set (map order_orderNumber (rows (orders db)))
               \<and> int_column (oin_addressId input) = Some (order_addressId row)
               \<and> int_column (oin_subtotal input) = Some (order_subtotal row)
               \<and> defaulted_int int_column (oin_discountAmount input)
                    = order_discountAmount row
               \<and> defaulted_int int_column (oin_deliveryCharge input)
                    = order_deliveryCharge row
               \<and> int_column (oin_totalAmount input) = Some (order_totalAmount row)
               \<and> nullable_text (text_column 50) (oin_couponCode input)
                    = Some (order_couponCode row)
               \<and> nullable_text (text_column 65535) (oin_notes input)
                    = Some (order_notes row)))"
proof (intro conjI impI allI)
  assume "text_column 50 (''ORD-'' @ decimal date_now @ ''-'' @ suffix) = Some number
    \<and> number \<notin> set (map order_orderNumber (rows (orders db)))
    \<and> int_column (oin_addressId input) = Some a
    \<and> int_column (oin_subtotal input) = Some s
    \<and> defaulted_int int_column (oin_discountAmount input) = Some d
    \<and> defaulted_int int_column (oin_deliveryCharge input) = Some c
    \<and> int_column (oin_totalAmount input) = Some t
    \<and> nullable_text (text_column 50) (oin_couponCode input) = Some coupon
    \<and> nullable_text (text_column 65535) (oin_notes input) = Some notes"
  then show "\<exists>row. orders_create (Some u) (Some db) int_column text_column db_time date_now suffix
                 input
               = Inr (nextId (orders db),
                      Some (db\<lparr>orders := (orders db)\<lparr>rows := rows (orders db) @ [row],
                                                     nextId := nextId (orders db) + 1\<rparr>\<rparr>))
          \<and> order_id row = nextId (orders db) \<and> order_userId row = user_id u
          \<and> order_orderNumber row = number
          \<and> order_addressId row = a \<and> order_subtotal row = s
          \<and> order_discountAmount row = Some d \<and> order_deliveryCharge row = Some c
          \<and> order_totalAmount row = t
          \<and> order_status row = Some Pending \<and> order_paymentStatus row = Some PayPending"
    by (auto simp: orders_create_def protectedProcedure_def createOrder_def insert_row_def
        order_of_data_def)
next
  fix insertId h
  assume "orders_create (Some u) (Some db) int_column text_column db_time date_now suffix input
          = Inr (insertId, h)"
  then show "\<exists>row. h = Some (db\<lparr>orders := (orders db)\<lparr>rows := rows (orders db) @ [row],
                                                     nextId := nextId (orders db) + 1\<rparr>\<rparr>)
               \<and> order_id row = insertId \<and> order_userId row = user_id u
               \<and> text_column 50 (''ORD-'' @ decimal date_now @ ''-'' @ suffix)
                    = Some (order_orderNumber row)
               \<and> order_orderNumber row \<notin> set (map order_orderNumber (rows (orders db)))
               \<and> int_column (oin_addressId input) = Some (order_addressId row)
               \<and> int_column (oin_subtotal input) = Some (order_subtotal row)
               \<and> defaulted_int int_column (oin_discountAmount input)
                    = order_discountAmount row
               \<and> defaulted_int int_column (oin_deliveryCharge input)
                    = order_deliveryCharge row
               \<and> int_column (oin_totalAmount input) = Some (order_totalAmount row)
               \<and> nullable_text (text_column 50) (oin_couponCode input)
                    = Some (order_couponCode row)
               \<and> nullable_text (text_column 65535) (oin_notes input)
                    = Some (order_notes row)"
    by (auto simp: orders_create_def protectedProcedure_def createOrder_def insert_row_def
        order_of_data_def Let_def split: option.splits if_splits)
qed

text \<open>
  The amended C1 at the input above, on a store that rounds a number and refuses a
  string that is too long: the call succeeds and the row holds subtotal 100 and total 5,
  as sent.
\<close>

theorem orders_create_stores_input_witness:
  "\<exists>row. orders_create (Some alice) (Some empty_database) rounding_column fitting_column 5000
            42 ''k3j9x0q1z'' underpaid_input
          = Inr (nextId (orders empty_database),
                 Some (empty_database\<lparr>orders := (orders empty_database)
                         \<lparr>rows := rows (orders empty_database) @ [row],
                          nextId := nextId (orders empty_database) + 1\<rparr>\<rparr>))
     \<and> order_id row = nextId (orders empty_database) \<and> order_userId row = user_id alice
     \<and> order_orderNumber row = ''ORD-42-k3j9x0q1z''
     \<and> order_addressId row = 1 \<and> order_subtotal row = 100
     \<and> order_discountAmount row = Some 0 \<and> order_deliveryCharge row = Some 0
     \<and> order_totalAmount row = 5
     \<and> order_status row = Some Pending \<and> order_paymentStatus row = Some PayPending"
proof -
  have pre: "fitting_column 50 (''ORD-'' @ decimal 42 @ ''-'' @ ''k3j9x0q1z'')
               = Some ''ORD-42-k3j9x0q1z''
    \<and> ''ORD-42-k3j9x0q1z'' \<notin> set (map order_orderNumber (rows (orders empty_database)))
    \<and> rounding_column (oin_addressId underpaid_input) = Some 1
    \<and> rounding_column (oin_subtotal underpaid_input) = Some 100
    \<and> defaulted_int rounding_column (oin_discountAmount underpaid_input) = Some 0
    \<and> defaulted_int rounding_column (oin_deliveryCharge underpaid_input) = Some 0
    \<and> rounding_column (oin_totalAmount underpaid_input) = Some 5
    \<and> nullable_text (fitting_column 50) (oin_couponCode underpaid_input) = Some None
    \<and> nullable_text (fitting_column 65535) (oin_notes underpaid_input) = Some None"
    by (simp add: empty_database_def no_rows_def underpaid_input_def rounding_column_values
        defaulted_int_def nullable_text_def fitting_column_def decimal_42)
  show ?thesis
    by (rule orders_create_stores_input [THEN conjunct1, THEN mp, OF pre])
qed

subsection \<open>Coupon validation\<close>

text \<open>
  C2: \<open>validateCoupon\<close> answers with the reason of the first check that fails, in the
  order not found, inactive, expired, usage limit reached, below the minimum order; when
  no check fails the coupon is valid. In particular a coupon whose expiry date is
  strictly in the past and whose usage count has reached its usage limit is never
  answered with the usage-limit reason, whatever the order amount, and is answered with
  the expired reason once it has passed the active check that precedes.
\<close>

theorem validateCoupon_precedence:
  "(getCouponByCode h code = None \<longrightarrow>
      validateCoupon h now code amount = Invalid ''Coupon not found'')
   \<and> (\<forall>c. getCouponByCode h code = Some c \<longrightarrow>
        (coupon_isActive c \<noteq> Some True \<longrightarrow>
           validateCoupon h now code amount = Invalid ''Coupon is inactive'')
      \<and> (coupon_isActive c = Some True \<and> is_expired now c \<longrightarrow>
           validateCoupon h now code amount = Invalid ''Coupon expired'')
      \<and> (coupon_isActive c = Some True \<and> \<not> is_expired now c \<and> usage_limit_reached c \<longrightarrow>
           validateCoupon h now code amount = Invalid ''Coupon usage limit reached'')
      \<and> (coupon_isActive c = Some True \<and> \<not> is_expired now c \<and> \<not> usage_limit_reached c
           \<and> below_minimum c amount \<longrightarrow>
           validateCoupon h now code amount = Invalid ''Order amount below minimum'')
      \<and> (coupon_isActive c = Some True \<and> \<not> is_expired now c \<and> \<not> usage_limit_reached c
           \<and> \<not> below_minimum c amount \<longrightarrow>
           validateCoupon h now code amount = Valid c)
      \<and> (\<forall>d l n. coupon_expiryDate c = Some d \<and> d < now \<and> coupon_usageLimit c = Some l
             \<and> coupon_usageCount c = Some n \<and> l \<le> n \<longrightarrow>
           validateCoupon h now code amount \<noteq> Invalid ''Coupon usage limit reached''
           \<and> (coupon_isActive c = Some True \<longrightarrow>
                validateCoupon h now code amount = Invalid ''Coupon expired'')))"
  by (auto simp: validateCoupon_def is_inactive_def is_expired_def)

text \<open>
  C2 at a coupon that expired at time 1000 and has used its one use, validated at time
  2000 against an order amount of 22500.
\<close>

theorem validateCoupon_precedence_witness:
  "getCouponByCode (Some (coupon_store spent_coupon)) ''SAVE10'' = Some spent_coupon
   \<and> coupon_isActive spent_coupon = Some True
   \<and> coupon_expiryDate spent_coupon = Some 1000 \<and> (1000::int) < 2000
   \<and> coupon_usageLimit spent_coupon = Some 1 \<and> coupon_usageCount spent_coupon = Some 1
   \<and> validateCoupon (Some (coupon_store spent_coupon)) 2000 ''SAVE10'' 22500
        = Invalid ''Coupon expired''"
proof -
  have found: "getCouponByCode (Some (coupon_store spent_coupon)) ''SAVE10'' = Some spent_coupon"
    by (simp add: getCouponByCode_def coupon_store_def first_row_def spent_coupon_def)
  have fields: "coupon_isActive spent_coupon = Some True"
    "coupon_expiryDate spent_coupon = Some 1000"
    "coupon_usageLimit spent_coupon = Some 1" "coupon_usageCount spent_coupon = Some 1"
    by (simp_all add: spent_coupon_def)
  show ?thesis
    using validateCoupon_precedence [of "Some (coupon_store spent_coupon)" "''SAVE10''" 2000 22500]
      found fields
    by simp
qed

text \<open>
  C3, as the spec states it, fails: \<open>coupon.usageLimit && ...\<close> skips the comparison when
  the limit is 0. A coupon with usage limit 0 and usage count 0 has a limit that is set
  and reached, and is valid.
\<close>

theorem validateCoupon_zero_limit_counterexample:
  "getCouponByCode (Some (coupon_store zero_limit_coupon)) ''FREE'' = Some zero_limit_coupon
   \<and> coupon_usageLimit zero_limit_coupon = Some 0
   \<and> coupon_usageCount zero_limit_coupon = Some 0
   \<and> validateCoupon (Some (coupon_store zero_limit_coupon)) 2000 ''FREE'' 22500
        = Valid zero_limit_coupon"
  by (simp add: validateCoupon_def getCouponByCode_def coupon_store_def first_row_def
      zero_limit_coupon_def is_inactive_def is_expired_def usage_limit_reached_def
      below_minimum_def)

text \<open>
  C3, amended: for every coupon whose usage limit is set and is not 0, whose usage count
  (0 when absent) is greater than or equal to that limit, and which passes the not-found,
  inactive and expired checks, \<open>validateCoupon\<close> answers invalid with the
  usage-limit-reached reason, for every order amount.
\<close>

theorem validateCoupon_usage_limit:
  assumes "getCouponByCode h code = Some c"
    and "coupon_isActive c = Some True"
    and "coupon_expiryDate c = None \<or> (\<exists>d. coupon_expiryDate c = Some d \<and> now \<le> d)"
    and "coupon_usageLimit c = Some l" and "l \<noteq> 0"
    and "l \<le> (case coupon_usageCount c of None \<Rightarrow> 0 | Some n \<Rightarrow> n)"
  shows "validateCoupon h now code amount = Invalid ''Coupon usage limit reached''"
  using assms
  by (auto simp: validateCoupon_def is_inactive_def is_expired_def usage_limit_reached_def)

text \<open>
  The amended C3 at a coupon with no expiry date that has used its one use.
\<close>

theorem validateCoupon_usage_limit_witness:
  "validateCoupon (Some (coupon_store full_coupon)) 2000 ''SAVE10'' 22500
     = Invalid ''Coupon usage limit reached''"
proof -
  have found: "getCouponByCode (Some (coupon_store full_coupon)) ''SAVE10'' = Some full_coupon"
    by (simp add: getCouponByCode_def coupon_store_def first_row_def full_coupon_def)
  show ?thesis
    by (rule validateCoupon_usage_limit [OF found, of 2000 1])
      (simp_all add: full_coupon_def)
qed

subsection \<open>Order status\<close>

lemma first_row_updated:
  assumes "\<And>r. p (f r) = p r"
  shows "first_row (filter p (map f xs)) = map_option f (first_row (filter p xs))"
  using assms by (induction xs) (simp_all add: first_row_def)

lemma touch_order_id: "order_id (touch_order db_time (\<lambda>r. r\<lparr>order_status := Some status\<rparr>) r) = order_id r"
  by (simp add: touch_order_def)

lemma touch_order_status:
  "order_status (touch_order db_time (\<lambda>r. r\<lparr>order_status := Some status\<rparr>) r) = Some status"
proof (cases "r\<lparr>order_status := Some status\<rparr> = r")
  case True
  then have "order_status (r\<lparr>order_status := Some status\<rparr>) = order_status r" by simp
  then have "order_status r = Some status" by simp
  then show ?thesis using True by (simp add: touch_order_def)
next
  case False
  then show ?thesis by (simp add: touch_order_def)
qed

text \<open>
  C4, as the spec states it, fails: \<open>orders.updateStatus\<close> sets the status it is given
  without reading the stored one. A delivered order is set back to pending.
\<close>

theorem orders_updateStatus_counterexample:
  "getOrderById (Some (order_store delivered_order)) 1 = Some delivered_order
   \<and> order_status delivered_order = Some Delivered
   \<and> orders_updateStatus (Some alice) (Some (order_store delivered_order)) 6000 1 Pending
        = Inr ((), Some (order_store
            (delivered_order\<lparr>order_status := Some Pending, order_updatedAt := 6000\<rparr>)))
   \<and> getOrderById (Some (order_store
          (delivered_order\<lparr>order_status := Some Pending, order_updatedAt := 6000\<rparr>))) 1
        = Some (delivered_order\<lparr>order_status := Some Pending, order_updatedAt := 6000\<rparr>)"
  by (simp add: orders_updateStatus_def protectedProcedure_def updateOrderStatus_def
      update_rows_def touch_order_def getOrderById_def first_row_def order_store_def
      delivered_order_def empty_database_def no_rows_def)

text \<open>
  C4, amended: \<open>orders.updateStatus\<close> has no terminal state. For every stored order,
  whatever its stored status, delivered and cancelled included, and every requested
  status, a call by an authenticated caller on an available store is not rejected, and
  afterwards the stored status of that order is the requested one.
\<close>

theorem orders_updateStatus_overwrites:
  assumes "getOrderById (Some db) ident = Some r"
  shows "\<exists>db' r'. orders_updateStatus (Some u) (Some db) db_time ident status
                    = Inr ((), Some db')
           \<and> getOrderById (Some db') ident = Some r'
           \<and> order_status r' = Some status"
proof -
  let ?f = "touch_order db_time (\<lambda>r. r\<lparr>order_status := Some status\<rparr>)"
  let ?g = "\<lambda>r. if order_id r = ident then ?f r else r"
  let ?db' = "db\<lparr>orders := update_rows (\<lambda>r. order_id r = ident) ?f (orders db)\<rparr>"
  have run: "orders_updateStatus (Some u) (Some db) db_time ident status = Inr ((), Some ?db')"
    by (simp add: orders_updateStatus_def protectedProcedure_def updateOrderStatus_def)
  have keep: "(order_id (?g x) = ident) = (order_id x = ident)" for x
    by (simp add: touch_order_id)
  have "getOrderById (Some ?db') ident = map_option ?g (getOrderById (Some db) ident)"
    unfolding getOrderById_def update_rows_def using keep
    by (simp add: first_row_updated [where f = ?g])
  then have look: "getOrderById (Some ?db') ident = Some (?g r)" using assms by simp
  have "order_id r = ident"
  proof -
    have "r \<in> set (filter (\<lambda>r. order_id r = ident) (rows (orders db)))"
      using assms
      by (cases "filter (\<lambda>r. order_id r = ident) (rows (orders db))")
        (auto simp: getOrderById_def first_row_def)
    then show ?thesis by simp
  qed
  then have "order_status (?g r) = Some status" by (simp add: touch_order_status)
  with run look show ?thesis by blast
qed

text \<open>
  The amended C4 at a delivered order, which is then cancelled.
\<close>

theorem orders_updateStatus_overwrites_witness:
  "\<exists>db' r'. orders_updateStatus (Some alice) (Some (order_store delivered_order)) 6000 1 Cancelled
               = Inr ((), Some db')
     \<and> getOrderById (Some db') 1 = Some r'
     \<and> order_status r' = Some Cancelled"
proof -
  have before: "getOrderById (Some (order_store delivered_order)) 1 = Some delivered_order"
    by (simp add: getOrderById_def first_row_def order_store_def delivered_order_def)
  show ?thesis by (rule orders_updateStatus_overwrites [OF before])
qed

subsection \<open>The discounted price\<close>

lemma half_not_int: "(999 / 2 :: rat) \<notin> \<int>"
proof
  assume "(999 / 2 :: rat) \<in> \<int>"
  then obtain k :: int where "(999 / 2 :: rat) = of_int k" by (auto elim: Ints_cases)
  then have "(of_int 999 :: rat) = of_int (2 * k)" by simp
  then have "999 = 2 * k" by (simp only: of_int_eq_iff)
  then show False by presburger
qed

text \<open>
  C5, as the spec states it, fails: \<open>getDiscountedPrice\<close> does not round. A price of 999
  minor units at 50 percent gives 499.5, which is not a whole number of minor units.
\<close>

theorem getDiscountedPrice_fractional:
  "getDiscountedPrice 999 50 = 999 / 2 \<and> getDiscountedPrice 999 50 \<notin> \<int>"
proof -
  have v: "getDiscountedPrice 999 50 = 999 / 2" by code_simp
  show ?thesis by (simp only: v half_not_int simp_thms)
qed

text \<open>
  C5, amended: for an integer price from 0 up to \<open>2\<^sup>5\<^sup>3\<close> and an integer percentage from 0
  to 100, the discounted price is the double that the three operations of
  \<open>price * (1 - discountPercentage / 100)\<close> give, with no rounding to whole minor units:
  it lies between 0 and the price, and within \<open>3 * price / 2\<^sup>5\<^sup>3\<close> of the exact product.
\<close>

theorem getDiscountedPrice_unrounded:
  assumes p0: "0 \<le> price" and p1: "price < 2 ^ 53" and d0: "0 \<le> d" and d1: "d \<le> 100"
  shows "0 \<le> getDiscountedPrice price d \<and> getDiscountedPrice price d \<le> of_int price \<and>
         \<bar>getDiscountedPrice price d - of_int price * (1 - of_int d / 100)\<bar>
            \<le> 3 * of_int price / 2 ^ 53"
proof -
  define q :: rat where "q = of_int d / 100"
  define t1 where "t1 = to_double q"
  define s where "s = 1 - t1"
  define t2 where "t2 = to_double s"
  define y where "y = of_int price * t2"
  define r where "r = to_double y"
  define P :: rat where "P = of_int price"
  have r: "getDiscountedPrice price d = r"
    by (simp add: getDiscountedPrice_def r_def y_def t2_def s_def t1_def q_def)
  have P0: "0 \<le> P" using p0 by (simp add: P_def)
  have q01: "0 \<le> q" "q \<le> 1" using d0 d1 by (simp_all add: q_def)
  have t1: "0 \<le> t1" "t1 \<le> 1" using to_double_unit [OF q01] by (simp_all add: t1_def)
  have s01: "0 \<le> s" "s \<le> 1" using t1 by (simp_all add: s_def)
  have t2: "0 \<le> t2" "t2 \<le> 1" using to_double_unit [OF s01] by (simp_all add: t2_def)
  have y0: "0 \<le> y" using P0 t2 by (simp add: y_def P_def)
  have "P * t2 \<le> P * 1" using P0 t2(2) by (rule mult_left_mono [rotated])
  then have yP: "y \<le> of_int price" by (simp add: y_def P_def)
  have r0: "0 \<le> r" unfolding r_def using y0 by (rule to_double_nonneg)
  have rP: "r \<le> of_int price" unfolding r_def using y0 yP p1 by (rule to_double_le_int0)
  have e1: "\<bar>t1 - q\<bar> \<le> 1 / 2 ^ 53"
  proof -
    have "\<bar>t1 - q\<bar> \<le> q / 2 ^ 53" unfolding t1_def using q01(1) by (rule to_double_err)
    also have "\<dots> \<le> 1 / 2 ^ 53" using q01(2) by (simp add: divide_right_mono)
    finally show ?thesis .
  qed
  have e2: "\<bar>t2 - s\<bar> \<le> 1 / 2 ^ 53"
  proof -
    have "\<bar>t2 - s\<bar> \<le> s / 2 ^ 53" unfolding t2_def using s01(1) by (rule to_double_err)
    also have "\<dots> \<le> 1 / 2 ^ 53" using s01(2) by (simp add: divide_right_mono)
    finally show ?thesis .
  qed
  have e3: "\<bar>r - y\<bar> \<le> P / 2 ^ 53"
  proof -
    have "\<bar>r - y\<bar> \<le> y / 2 ^ 53" unfolding r_def using y0 by (rule to_double_err)
    also have "\<dots> \<le> P / 2 ^ 53" using yP by (simp add: divide_right_mono P_def)
    finally show ?thesis .
  qed
  have split: "r - P * (1 - q) = (r - y) + P * (t2 - s) - P * (t1 - q)"
    by (simp add: y_def s_def P_def algebra_simps)
  have m2: "\<bar>P * (t2 - s)\<bar> \<le> P / 2 ^ 53"
  proof -
    have "\<bar>P * (t2 - s)\<bar> = P * \<bar>t2 - s\<bar>" using P0 by (simp add: abs_mult)
    also have "\<dots> \<le> P * (1 / 2 ^ 53)" using e2 P0 by (rule mult_left_mono)
    finally show ?thesis by simp
  qed
  have m1: "\<bar>P * (t1 - q)\<bar> \<le> P / 2 ^ 53"
  proof -
    have "\<bar>P * (t1 - q)\<bar> = P * \<bar>t1 - q\<bar>" using P0 by (simp add: abs_mult)
    also have "\<dots> \<le> P * (1 / 2 ^ 53)" using e1 P0 by (rule mult_left_mono)
    finally show ?thesis by simp
  qed
  have "\<bar>r - P * (1 - q)\<bar> \<le> \<bar>r - y\<bar> + \<bar>P * (t2 - s)\<bar> + \<bar>P * (t1 - q)\<bar>"
    unfolding split by linarith
  also have "\<dots> \<le> P / 2 ^ 53 + P / 2 ^ 53 + P / 2 ^ 53" using e3 m2 m1 by linarith
  finally have err: "\<bar>r - P * (1 - q)\<bar> \<le> 3 * P / 2 ^ 53" by simp
  show ?thesis using r0 rP err by (simp add: r P_def q_def)
qed

text \<open>
  The amended C5 at a price of 999 minor units and 10 percent.
\<close>

theorem getDiscountedPrice_unrounded_witness:
  "0 \<le> getDiscountedPrice 999 10 \<and> getDiscountedPrice 999 10 \<le> 999 \<and>
   \<bar>getDiscountedPrice 999 10 - 999 * (1 - 10 / 100)\<bar> \<le> 3 * 999 / 2 ^ 53"
  using getDiscountedPrice_unrounded [of 999 10] by simp

subsection \<open>Cart and wishlist rows\<close>

text \<open>
  C6, as the spec states it, fails: \<open>cart.remove\<close> and \<open>cart.update\<close> select the row by
  its identifier alone. Alice removes the cart row of Bob, and sets its quantity.
\<close>

theorem cart_remove_other_user_counterexample:
  "user_id alice \<noteq> user_id bob
   \<and> getCartItems (Some (cart_store [bobs_item])) (user_id bob) = [bobs_item]
   \<and> cart_remove (Some alice) (Some (cart_store [bobs_item])) 1
        = Inr ((), Some ((cart_store [bobs_item])\<lparr>cartItems := \<lparr>rows = [], nextId = 2\<rparr>\<rparr>))
   \<and> getCartItems (Some ((cart_store [bobs_item])\<lparr>cartItems := \<lparr>rows = [], nextId = 2\<rparr>\<rparr>))
        (user_id bob) = []
   \<and> cart_update (Some alice) (Some (cart_store [bobs_item])) 1 7
        = Inr ((), Some (cart_store [bobs_item\<lparr>cart_quantity := 7\<rparr>]))"
  by (simp add: cart_remove_def cart_update_def protectedProcedure_def removeFromCart_def
      updateCartItem_def update_rows_def delete_rows_def getCartItems_def cart_store_def
      bobs_item_def alice_def bob_def empty_database_def no_rows_def)

text \<open>
  C6, amended: \<open>cart.list\<close> returns only rows of the caller, and \<open>cart.add\<close> and
  \<open>cart.clear\<close> leave the cart rows of every other user unchanged. \<open>cart.update\<close> and
  \<open>cart.remove\<close> act on the rows with the given identifier, whoever owns them: the first
  sets their quantity, the second deletes them, and both leave every row with another
  identifier unchanged.
\<close>

theorem cart_procedures_frame:
  "(\<exists>xs. cart_list (Some u) (Some db) = Inr xs \<and> (\<forall>x \<in> set xs. cart_userId x = user_id u))
   \<and> (\<exists>insertId db'. cart_add (Some u) (Some db) productId quantity = Inr (insertId, Some db')
         \<and> (\<forall>b. b \<noteq> user_id u \<longrightarrow> getCartItems (Some db') b = getCartItems (Some db) b))
   \<and> (\<exists>db'. cart_clear (Some u) (Some db) = Inr ((), Some db')
         \<and> (\<forall>b. b \<noteq> user_id u \<longrightarrow> getCartItems (Some db') b = getCartItems (Some db) b))
   \<and> (\<exists>db'. cart_update (Some u) (Some db) ident q = Inr ((), Some db')
         \<and> rows (cartItems db')
             = map (\<lambda>r. if cart_id r = ident then r\<lparr>cart_quantity := q\<rparr> else r)
                 (rows (cartItems db)))
   \<and> (\<exists>db'. cart_remove (Some u) (Some db) ident = Inr ((), Some db')
         \<and> rows (cartItems db') = filter (\<lambda>r. cart_id r \<noteq> ident) (rows (cartItems db)))"
proof -
  have l: "\<exists>xs. cart_list (Some u) (Some db) = Inr xs \<and> (\<forall>x \<in> set xs. cart_userId x = user_id u)"
    by (simp add: cart_list_def protectedProcedure_def getCartItems_def)
  have a: "\<exists>insertId db'. cart_add (Some u) (Some db) productId quantity = Inr (insertId, Some db')
         \<and> (\<forall>b. b \<noteq> user_id u \<longrightarrow> getCartItems (Some db') b = getCartItems (Some db) b)"
    by (simp add: cart_add_def protectedProcedure_def addToCart_def insert_row_def
        getCartItems_def)
  have c: "\<exists>db'. cart_clear (Some u) (Some db) = Inr ((), Some db')
         \<and> (\<forall>b. b \<noteq> user_id u \<longrightarrow> getCartItems (Some db') b = getCartItems (Some db) b)"
  proof -
    have "filter (\<lambda>r. cart_userId r \<noteq> user_id u \<and> cart_userId r = b) xs
            = filter (\<lambda>r. cart_userId r = b) xs" if "b \<noteq> user_id u" for b xs
      using that by (induction xs) auto
    then show ?thesis
      by (auto simp: cart_clear_def protectedProcedure_def clearCart_def delete_rows_def
          getCartItems_def)
  qed
  have up: "\<exists>db'. cart_update (Some u) (Some db) ident q = Inr ((), Some db')
         \<and> rows (cartItems db')
             = map (\<lambda>r. if cart_id r = ident then r\<lparr>cart_quantity := q\<rparr> else r)
                 (rows (cartItems db))"
    by (simp add: cart_update_def protectedProcedure_def updateCartItem_def update_rows_def)
  have r: "\<exists>db'. cart_remove (Some u) (Some db) ident = Inr ((), Some db')
         \<and> rows (cartItems db') = filter (\<lambda>r. cart_id r \<noteq> ident) (rows (cartItems db))"
    by (simp add: cart_remove_def protectedProcedure_def removeFromCart_def delete_rows_def)
  from l a c up r show ?thesis by (intro conjI)
qed

text \<open>
  The amended C6 at a cart that holds one row of Bob, cleared by Alice.
\<close>

theorem cart_procedures_frame_witness:
  "\<exists>db'. cart_clear (Some alice) (Some (cart_store [bobs_item])) = Inr ((), Some db')
         \<and> getCartItems (Some db') 2 = [bobs_item]"
proof -
  have before: "getCartItems (Some (cart_store [bobs_item])) 2 = [bobs_item]"
    by (simp add: getCartItems_def cart_store_def bobs_item_def)
  have ids: "(2::int) \<noteq> user_id alice" by (simp add: alice_def)
  from cart_procedures_frame [of alice "cart_store [bobs_item]" 10 None 1 7]
  obtain db' where "cart_clear (Some alice) (Some (cart_store [bobs_item])) = Inr ((), Some db')"
    and "\<forall>b. b \<noteq> user_id alice \<longrightarrow> getCartItems (Some db') b
            = getCartItems (Some (cart_store [bobs_item])) b" by blast
  then show ?thesis using before ids by auto
qed

text \<open>
  C7 does not hold of the code: \<open>removeFromWishlist\<close> receives the product's identifier
  and deletes by the user's identifier alone. Alice holds wishlist items for the products
  10 and 20; \<open>wishlist.remove\<close> with product 10 leaves her no item, so the item for
  product 20 is gone too.
\<close>

theorem wishlist_remove_deletes_all:
  "getWishlistItems (Some (wishlist_store alices_wishlist)) (user_id alice) = alices_wishlist
   \<and> wishlist_remove (Some alice) (Some (wishlist_store alices_wishlist)) 10
        = Inr ((), Some (wishlist_store []))
   \<and> getWishlistItems (Some (wishlist_store [])) (user_id alice) = []"
  by (simp add: wishlist_remove_def protectedProcedure_def removeFromWishlist_def
      delete_rows_def getWishlistItems_def wishlist_store_def alices_wishlist_def alice_def)

subsection \<open>The store that is not available\<close>

text \<open>
  C8, as the spec states it, fails: with a null handle \<open>upsertUser\<close> logs a warning and
  returns, as if it had written.
\<close>

theorem upsertUser_unavailable_counterexample:
  "upsertUser None ''owner'' 0 new_visitor = Inr ((), None)
   \<and> upsertUser None ''owner'' 0 new_visitor \<noteq> Inl DatabaseNotAvailable"
  by (simp add: upsertUser_def new_visitor_def)

text \<open>
  C8, amended: with a null handle every function that only reads returns an empty list
  or no row (and \<open>validateCoupon\<close>, which reads the coupon, answers that the coupon is
  not found), and every function that writes throws, except \<open>upsertUser\<close>, which throws
  only for an empty \<open>openId\<close> and otherwise returns without writing.
\<close>

theorem store_unavailable_paths:
  "getUserByOpenId None openId = None
   \<and> getCategories None = []
   \<and> getCategoryBySlug None slug = None
   \<and> getProducts None limit offset = Inr []
   \<and> getProductsByCategory None categoryId limit offset = Inr []
   \<and> getProductById None productId = None
   \<and> getFeaturedProducts None limit = Inr []
   \<and> getCartItems None userId = []
   \<and> getWishlistItems None userId = []
   \<and> getUserAddresses None userId = []
   \<and> getOrderById None orderId = None
   \<and> getUserOrders None userId = []
   \<and> getOrderItems None orderId = []
   \<and> getProductReviews None productId = []
   \<and> getCouponByCode None code = None
   \<and> getActiveBanners None = []
   \<and> validateCoupon None now code amount = Invalid ''Coupon not found''
   \<and> addToCart None userId productId quantity = Inl DatabaseNotAvailable
   \<and> updateCartItem None ident q = Inl DatabaseNotAvailable
   \<and> removeFromCart None ident = Inl DatabaseNotAvailable
   \<and> clearCart None userId = Inl DatabaseNotAvailable
   \<and> addToWishlist None userId productId = Inl DatabaseNotAvailable
   \<and> removeFromWishlist None userId productId = Inl DatabaseNotAvailable
   \<and> addAddress None newAddr = Inl DatabaseNotAvailable
   \<and> updateAddress None ident patch = Inl DatabaseNotAvailable
   \<and> deleteAddress None ident = Inl DatabaseNotAvailable
   \<and> createOrder None int_column text_column db_time newOrd = Inl DatabaseNotAvailable
   \<and> updateOrderStatus None db_time orderId status = Inl DatabaseNotAvailable
   \<and> updatePaymentStatus None text_column db_time orderId paymentStatus paymentId = Inl DatabaseNotAvailable
   \<and> createOrderItem None newItem = Inl DatabaseNotAvailable
   \<and> createReview None newRev = Inl DatabaseNotAvailable
   \<and> upsertUser None ownerOpenId now u
        = (if iu_openId u = [] then Inl OpenIdRequired else Inr ((), None))"
proof -
  have reads: "getUserByOpenId None openId = None" "getCategories None = []"
    "getCategoryBySlug None slug = None" "getProducts None limit offset = Inr []"
    "getProductsByCategory None categoryId limit offset = Inr []"
    "getProductById None productId = None" "getFeaturedProducts None limit = Inr []"
    "getCartItems None userId = []" "getWishlistItems None userId = []"
    "getUserAddresses None userId = []" "getOrderById None orderId = None"
    "getUserOrders None userId = []" "getOrderItems None orderId = []"
    "getProductReviews None productId = []" "getCouponByCode None code = None"
    "getActiveBanners None = []"
    by (simp_all add: getUserByOpenId_def getCategories_def getCategoryBySlug_def
        getProducts_def getProductsByCategory_def getProductById_def getFeaturedProducts_def
        getCartItems_def getWishlistItems_def getUserAddresses_def getOrderById_def
        getUserOrders_def getOrderItems_def getProductReviews_def getCouponByCode_def
        getActiveBanners_def)
  have validate: "validateCoupon None now code amount = Invalid ''Coupon not found''"
    by (simp add: validateCoupon_def getCouponByCode_def)
  have writes: "addToCart None userId productId quantity = Inl DatabaseNotAvailable"
    "updateCartItem None ident q = Inl DatabaseNotAvailable"
    "removeFromCart None ident = Inl DatabaseNotAvailable"
    "clearCart None userId = Inl DatabaseNotAvailable"
    "addToWishlist None userId productId = Inl DatabaseNotAvailable"
    "removeFromWishlist None userId productId = Inl DatabaseNotAvailable"
    "addAddress None newAddr = Inl DatabaseNotAvailable"
    "updateAddress None ident patch = Inl DatabaseNotAvailable"
    "deleteAddress None ident = Inl DatabaseNotAvailable"
    "createOrder None int_column text_column db_time newOrd = Inl DatabaseNotAvailable"
    "updateOrderStatus None db_time orderId status = Inl DatabaseNotAvailable"
    "updatePaymentStatus None text_column db_time orderId paymentStatus paymentId = Inl DatabaseNotAvailable"
    "createOrderItem None newItem = Inl DatabaseNotAvailable"
    "createReview None newRev = Inl DatabaseNotAvailable"
    by (simp_all add: addToCart_def updateCartItem_def removeFromCart_def clearCart_def
        addToWishlist_def removeFromWishlist_def addAddress_def updateAddress_def
        deleteAddress_def createOrder_def updateOrderStatus_def updatePaymentStatus_def
        createOrderItem_def createReview_def)
  have upsert: "upsertUser None ownerOpenId now u
        = (if iu_openId u = [] then Inl OpenIdRequired else Inr ((), None))"
    by (simp add: upsertUser_def)
  show ?thesis by (simp only: reads validate writes upsert simp_thms)
qed

text \<open>
  The amended C8 at a read, a write and an \<open>upsertUser\<close> with an empty \<open>openId\<close>.
\<close>

theorem store_unavailable_paths_witness:
  "getCategories None = []
   \<and> addToCart None 1 10 None = Inl DatabaseNotAvailable
   \<and> upsertUser None ''owner'' 0 (new_visitor\<lparr>iu_openId := []\<rparr>) = Inl OpenIdRequired"
  using store_unavailable_paths [where userId = 1 and productId = 10 and quantity = None
      and ownerOpenId = "''owner''" and now = 0 and u = "new_visitor\<lparr>iu_openId := []\<rparr>"]
  by simp

subsection \<open>Delivery OTP\<close>

text \<open>
  C9: for every order with a code and an expiry stored, and the expiry strictly before
  the current time, verifying with the stored code itself does not succeed.
\<close>

theorem verifyDeliveryOtp_expired:
  assumes "order_deliveryOtp ord = Some code"
    and "order_deliveryOtpExpiry ord = Some expiry"
    and "expiry < now"
  shows "\<not> verifyDeliveryOtp now ord code"
  using assms by (simp add: verifyDeliveryOtp_def)

text \<open>
  C9 at the code 123456 with expiry 999: verifying at time 1000 fails, and at time 998
  the same code verifies.
\<close>

theorem verifyDeliveryOtp_expired_witness:
  "\<not> verifyDeliveryOtp 1000 otp_order ''123456'' \<and> verifyDeliveryOtp 998 otp_order ''123456''"
proof -
  have "\<not> verifyDeliveryOtp 1000 otp_order ''123456''"
    by (rule verifyDeliveryOtp_expired [where expiry = 999])
      (simp_all add: otp_order_def)
  moreover have "verifyDeliveryOtp 998 otp_order ''123456''"
    by (simp add: verifyDeliveryOtp_def otp_order_def)
  ultimately show ?thesis by simp
qed

subsection \<open>Products of a category\<close>

lemma select_page_subset: "select_page l off xs = Inr ys \<Longrightarrow> set ys \<subseteq> set xs"
  by (auto simp: select_page_def split: option.splits dest: in_set_takeD in_set_dropD)

lemma paginate_subset: "paginate limit offset xs = Inr ys \<Longrightarrow> set ys \<subseteq> set xs"
  unfolding paginate_def by (rule select_page_subset)

text \<open>
  C10: \<open>products.byCategory\<close> selects by \<open>categoryId\<close> alone, with no test of \<open>isActive\<close>:
  asked for a category without limit and offset it returns every row of the category, and
  an inactive product of the category is among them. \<open>products.list\<close>, for every limit
  and offset with which it returns, returns only rows whose \<open>isActive\<close> is true, and so
  never that product; without limit and offset it returns all the active rows.
\<close>

theorem products_byCategory_ignores_isActive:
  assumes "p \<in> set (rows (products db))"
    and "prod_categoryId p = categoryId"
    and "prod_isActive p = False"
  shows "products_byCategory (Some db) categoryId None None
           = Inr (filter (\<lambda>r. prod_categoryId r = categoryId) (rows (products db)))
         \<and> p \<in> set (filter (\<lambda>r. prod_categoryId r = categoryId) (rows (products db)))
         \<and> (\<forall>limit offset listed.
               products_list (Some db) limit offset = Inr listed
               \<longrightarrow> p \<notin> set listed \<and> (\<forall>r \<in> set listed. prod_isActive r = True))
         \<and> products_list (Some db) None None
             = Inr (filter (\<lambda>r. prod_isActive r = True) (rows (products db)))"
proof -
  have a: "products_byCategory (Some db) categoryId None None
             = Inr (filter (\<lambda>r. prod_categoryId r = categoryId) (rows (products db)))"
    by (simp add: products_byCategory_def getProductsByCategory_def paginate_def
        select_page_def)
  have b: "p \<in> set (filter (\<lambda>r. prod_categoryId r = categoryId) (rows (products db)))"
    using assms by simp
  have c: "p \<notin> set listed \<and> (\<forall>r \<in> set listed. prod_isActive r = True)"
    if "products_list (Some db) limit offset = Inr listed" for limit offset listed
  proof -
    from that have "paginate limit offset
        (filter (\<lambda>r. prod_isActive r = True) (rows (products db))) = Inr listed"
      by (simp add: products_list_def getProducts_def)
    then have "set listed \<subseteq> set (filter (\<lambda>r. prod_isActive r = True) (rows (products db)))"
      by (rule paginate_subset)
    then show ?thesis using assms(3) by auto
  qed
  have d: "products_list (Some db) None None
             = Inr (filter (\<lambda>r. prod_isActive r = True) (rows (products db)))"
    by (simp add: products_list_def getProducts_def paginate_def select_page_def)
  from a b c d show ?thesis by blast
qed

text \<open>
  C10 at a store whose only product is inactive and of category 7: the product is the
  result of \<open>products.byCategory\<close> and the result of \<open>products.list\<close> is empty.
\<close>

theorem products_byCategory_ignores_isActive_witness:
  "products_byCategory (Some (product_store [hidden_product])) 7 None None
     = Inr [hidden_product]
   \<and> products_list (Some (product_store [hidden_product])) None None = Inr []"
proof -
  have m: "hidden_product \<in> set (rows (products (product_store [hidden_product])))"
    by (simp add: product_store_def)
  have f: "prod_categoryId hidden_product = 7" "prod_isActive hidden_product = False"
    by (simp_all add: hidden_product_def)
  have r: "rows (products (product_store [hidden_product])) = [hidden_product]"
    by (simp add: product_store_def)
  from products_byCategory_ignores_isActive [OF m f]
  show ?thesis by (simp add: r f)
qed

end
